theory Spec2Isabelle
  imports Complex_Main
begin

section \<open>Tensors\<close>

text \<open>
  The agent computes on two-dimensional float32 tensors of shape (batch, width). A tensor
  is a list of rows here. The type \<open>'s\<close> of its entries is left open: the definitions use
  only the arithmetic operations of the code, so they can be read over \<open>float32\<close> (defined
  below, with rounding, overflow, the infinities and NaN), which is what the program
  computes on, and over the real numbers (the types without \<open>_over\<close>), which is the
  arithmetic the formulas of the spec are written in. The elementwise operations are the
  ones \<^verbatim>\<open>DDPG.py\<close> uses on tensors of one shape; on tensors of different shapes MindSpore
  broadcasts or raises, which is not modelled, so every statement below that reads an
  entry of a result asks for equal shapes.
\<close>

type_synonym 's tensor_over = "'s list list"

type_synonym tensor = "real tensor_over"

type_synonym params = "real list"

definition shape :: "'s tensor_over \<Rightarrow> nat list" where
  "shape t = map length t"

definition tensor_add :: "('s::plus) tensor_over \<Rightarrow> 's tensor_over \<Rightarrow> 's tensor_over" where
  "tensor_add a b = map2 (map2 (+)) a b"

definition tensor_mul :: "('s::times) tensor_over \<Rightarrow> 's tensor_over \<Rightarrow> 's tensor_over" where
  "tensor_mul a b = map2 (map2 (*)) a b"

definition tensor_sub :: "('s::minus) tensor_over \<Rightarrow> 's tensor_over \<Rightarrow> 's tensor_over" where
  "tensor_sub a b = map2 (map2 (-)) a b"

definition scalar_mul :: "('s::times) \<Rightarrow> 's tensor_over \<Rightarrow> 's tensor_over" where
  "scalar_mul c t = map (map ((*) c)) t"

definition scalar_sub :: "('s::minus) \<Rightarrow> 's tensor_over \<Rightarrow> 's tensor_over" where
  "scalar_sub c t = map (map ((-) c)) t"

text \<open>
  \<^verbatim>\<open>ops.cat((a, b), axis=1)\<close>: the rows of \<open>b\<close> are appended to the rows of \<open>a\<close>. When
  \<open>a\<close> and \<open>b\<close> differ in their number of rows \<^verbatim>\<open>ops.cat\<close> raises; the definition
  is meant for equal numbers of rows only, and a statement about a learning step asks
  for them.
\<close>

definition cat_axis1 :: "'s tensor_over \<Rightarrow> 's tensor_over \<Rightarrow> 's tensor_over" where
  "cat_axis1 a b = map2 (@) a b"

text \<open>
  \<^verbatim>\<open>t.mean()\<close>: the sum of all entries divided by their number, both in the arithmetic
  of the entries. The entries are added from the last to the first (MindSpore does not fix
  the order); over the reals the sum is \<open>sum_list\<close>. Over \<open>float32\<close> the mean of an empty
  tensor is \<open>0 / 0\<close>, which is NaN.
\<close>

fun scalar_of_nat :: "nat \<Rightarrow> ('s::{zero,one,plus})" where
  "scalar_of_nat 0 = 0"
| "scalar_of_nat (Suc n) = scalar_of_nat n + 1"

definition mean :: "('s::{zero,one,plus,inverse}) tensor_over \<Rightarrow> 's" where
  "mean t = foldr (+) (concat t) 0 / scalar_of_nat (length (concat t))"

text \<open>\<^verbatim>\<open>ops.mse_loss(a, b)\<close>: the mean of the squared differences.\<close>

definition mse_loss :: "('s::{zero,one,plus,minus,times,inverse}) tensor_over \<Rightarrow> 's tensor_over \<Rightarrow> 's" where
  "mse_loss a b = mean (map (map (\<lambda>x. x * x)) (tensor_sub a b))"

section \<open>Data of the agent\<close>

text \<open>
  \<^verbatim>\<open>config.hyperparameters\<close> is a dictionary with the nested dictionaries
  \<^verbatim>\<open>"Actor"\<close> and \<^verbatim>\<open>"Critic"\<close>. A record has every key present, as a
  configuration that \<^verbatim>\<open>DDPG.py\<close> can run on has. The discount rate is of the type of
  the entries of a tensor: its product with a tensor is taken in the arithmetic of the
  tensor. The parameters of the networks, the learning rates and \<open>\<tau>\<close> are real numbers.
\<close>

record net_hyperparameters =
  learning_rate :: real
  gradient_clipping_norm :: real
  tau :: real
  buffer_size :: nat

record 's hyperparameters_over =
  Actor :: net_hyperparameters
  Critic :: net_hyperparameters
  batch_size :: int
  discount_rate :: 's
  update_every_n_steps :: int
  learning_updates_per_learning_session :: int

type_synonym hyperparameters = "real hyperparameters_over"

record 's transition_over =
  t_state :: "'s list"
  t_action :: "'s list"
  t_reward :: 's
  t_next_state :: "'s list"
  t_done :: bool

type_synonym transition = "real transition_over"

text \<open>The five tensors that \<^verbatim>\<open>sample_experiences\<close> returns.\<close>

record 's batch_over =
  b_states :: "'s tensor_over"
  b_actions :: "'s tensor_over"
  b_rewards :: "'s tensor_over"
  b_next_states :: "'s tensor_over"
  b_dones :: "'s tensor_over"

type_synonym batch = "real batch_over"

record ('r, 's) Replay_Buffer_over =
  items :: "'s transition_over list"
  capacity :: nat
  rb_batch_size :: int
  rng :: 'r

type_synonym 'r Replay_Buffer = "('r, real) Replay_Buffer_over"

text \<open>An optimizer (\<^verbatim>\<open>nn.Adam\<close>): its learning rate and its internal state.\<close>

record 'o optimizer =
  opt_learning_rate :: real
  opt_eps :: real
  opt_state :: 'o

text \<open>
  The calls that \<^verbatim>\<open>DDPG.py\<close> makes to its collaborators are recorded in order, with
  the arguments that the statements below speak about.
\<close>

datatype net = Critic_Net | Actor_Net

datatype 's event_over =
    Conduct_Action "'s list"
  | Sample_Experiences "'s batch_over"
  | Critic_Grad "'s tensor_over" "'s tensor_over" "'s tensor_over"
  | Actor_Grad "'s tensor_over"
  | Update_Learning_Rate real
  | Optimisation_Step net
  | Soft_Update net
  | Save_Experience

type_synonym event = "real event_over"

record ('e, 'n, 'r, 'o, 's) agent_over =
  hyperparameters :: "'s hyperparameters_over"
  critic_local :: params
  critic_target :: params
  actor_local :: params
  actor_target :: params
  critic_optimizer :: "'o optimizer"
  actor_optimizer :: "'o optimizer"
  memory :: "('r, 's) Replay_Buffer_over"
  exploration_strategy :: 'n
  environment :: 'e
  state :: "'s list"
  next_state :: "'s list"
  action :: "'s list"
  reward :: 's
  done_flag :: bool
  global_step_number :: int
  episode_number :: int
  calls :: "'s event_over list"

type_synonym ('e, 'n, 'r, 'o) agent = "('e, 'n, 'r, 'o, real) agent_over"

text \<open>
  What \<^verbatim>\<open>DDPG.py\<close> takes from outside the repository's file: the two network
  architectures that \<^verbatim>\<open>create_NN\<close> builds (a forward pass from the parameters and
  a batch), MindSpore's \<^verbatim>\<open>value_and_grad\<close> (given a loss as a function of the
  weights and the current weights, the loss value and the gradients), the optimisation
  step of the base agent, the environment, the exploration noise, the random choice
  of the replay buffer, the initial values that \<^verbatim>\<open>create_NN\<close>,
  \<^verbatim>\<open>nn.Adam\<close> and \<^verbatim>\<open>OU_Noise_Exploration\<close> construct, and
  \<^verbatim>\<open>Base_Agent.copy_model_over(from_model, to_model)\<close>, of which the spec gives the name
  only: it takes the parameters of both networks and returns the new parameters of
  \<open>to_model\<close>.
\<close>

record ('e, 'n, 'r, 'o, 'g, 's) collaborators_over =
  critic_network :: "params \<Rightarrow> 's tensor_over \<Rightarrow> 's tensor_over"
  actor_network :: "params \<Rightarrow> 's tensor_over \<Rightarrow> 's tensor_over"
  value_and_grad :: "(params \<Rightarrow> 's) \<Rightarrow> params \<Rightarrow> 's \<times> 'g"
  take_optimisation_step :: "'o optimizer \<Rightarrow> 'g \<Rightarrow> real \<Rightarrow> params \<Rightarrow> 'o optimizer \<times> params"
  environment_step :: "'e \<Rightarrow> 's list \<Rightarrow> 'e \<times> 's list \<times> 's \<times> bool"
  perturb_action_for_exploration_purposes :: "'n \<Rightarrow> 's tensor_over \<Rightarrow> 's tensor_over \<times> 'n"
  random_sample :: "'r \<Rightarrow> 's transition_over list \<Rightarrow> int \<Rightarrow> 's transition_over list \<times> 'r"
  create_NN :: "'r \<Rightarrow> nat \<Rightarrow> nat \<Rightarrow> string \<Rightarrow> params \<times> 'r"
  copy_model_over :: "params \<Rightarrow> params \<Rightarrow> params"
  adam_init :: "params \<Rightarrow> 'o"
  noise_init :: 'n

type_synonym ('e, 'n, 'r, 'o, 'g) collaborators = "('e, 'n, 'r, 'o, 'g, real) collaborators_over"

datatype error = InsufficientDataError | ZeroDivisionError | ValueError

section \<open>The critic's targets and the two losses\<close>

definition compute_critic_values_for_next_states ::
  "('e, 'n, 'r, 'o, 'g, 's::{zero,one,plus,minus,uminus,times,inverse}) collaborators_over \<Rightarrow> ('e, 'n, 'r, 'o, 's) agent_over \<Rightarrow> 's tensor_over \<Rightarrow> 's tensor_over" where
  "compute_critic_values_for_next_states B ag next_states =
     (let actions_next = actor_network B (actor_target ag) next_states;
          critic_targets_next =
            critic_network B (critic_target ag) (cat_axis1 next_states actions_next)
      in critic_targets_next)"

definition compute_critic_values_for_current_states ::
  "('e, 'n, 'r, 'o, 's::{one,plus,minus,times}) agent_over \<Rightarrow> 's tensor_over \<Rightarrow> 's tensor_over \<Rightarrow> 's tensor_over \<Rightarrow> 's tensor_over" where
  "compute_critic_values_for_current_states ag rewards critic_targets_next dones =
     tensor_add rewards
       (tensor_mul (scalar_mul (discount_rate (hyperparameters ag)) critic_targets_next)
                   (scalar_sub 1 dones))"

definition compute_critic_targets ::
  "('e, 'n, 'r, 'o, 'g, 's::{zero,one,plus,minus,uminus,times,inverse}) collaborators_over \<Rightarrow> ('e, 'n, 'r, 'o, 's) agent_over \<Rightarrow> 's tensor_over \<Rightarrow> 's tensor_over \<Rightarrow> 's tensor_over
     \<Rightarrow> 's tensor_over" where
  "compute_critic_targets B ag next_states rewards dones =
     (let critic_targets_next = compute_critic_values_for_next_states B ag next_states;
          critic_targets =
            compute_critic_values_for_current_states ag rewards critic_targets_next dones
      in critic_targets)"

definition compute_expected_critic_values ::
  "('e, 'n, 'r, 'o, 'g, 's::{zero,one,plus,minus,uminus,times,inverse}) collaborators_over \<Rightarrow> ('e, 'n, 'r, 'o, 's) agent_over \<Rightarrow> 's tensor_over \<Rightarrow> 's tensor_over \<Rightarrow> 's tensor_over" where
  "compute_expected_critic_values B ag states actions =
     critic_network B (critic_local ag) (cat_axis1 states actions)"

definition compute_loss ::
  "('e, 'n, 'r, 'o, 'g, 's::{zero,one,plus,minus,uminus,times,inverse}) collaborators_over \<Rightarrow> ('e, 'n, 'r, 'o, 's) agent_over \<Rightarrow> 's tensor_over \<Rightarrow> 's tensor_over \<Rightarrow> 's tensor_over
     \<Rightarrow> 's" where
  "compute_loss B ag states actions critic_targets =
     (let critic_expected = compute_expected_critic_values B ag states actions;
          loss = mse_loss critic_expected critic_targets
      in loss)"

definition calculate_actor_loss ::
  "('e, 'n, 'r, 'o, 'g, 's::{zero,one,plus,minus,uminus,times,inverse}) collaborators_over \<Rightarrow> ('e, 'n, 'r, 'o, 's) agent_over \<Rightarrow> 's tensor_over \<Rightarrow> 's" where
  "calculate_actor_loss B ag states =
     (let actions_pred = actor_network B (actor_local ag) states;
          actor_loss = - mean (critic_network B (critic_local ag) (cat_axis1 states actions_pred))
      in actor_loss)"

section \<open>Services of the base agent and of the replay buffer\<close>

text \<open>
  Modelled from the spec: \<^verbatim>\<open>Base_Agent.soft_update_of_target_network\<close>, which is not in
  the source file. The spec: \<open>\<theta>_target \<leftarrow> \<tau>\<cdot>\<theta>_local + (1\<minus>\<tau>)\<cdot>\<theta>_target\<close>, elementwise over all
  parameters. The result is the new parameter vector of the target network.
\<close>

definition soft_update_of_target_network :: "params \<Rightarrow> params \<Rightarrow> real \<Rightarrow> params" where
  "soft_update_of_target_network local_model target_model t =
     map2 (\<lambda>l g. t * l + (1 - t) * g) local_model target_model"

text \<open>
  Modelled from the spec: \<^verbatim>\<open>Base_Agent.update_learning_rate(starting_lr, optimizer)\<close>,
  which is not in the source file. The spec (design notes): the source sets the actor
  optimizer's learning rate to the same, non-decayed hyperparameter value.
\<close>

definition update_learning_rate :: "real \<Rightarrow> 'o optimizer \<Rightarrow> 'o optimizer" where
  "update_learning_rate starting_lr opt = opt\<lparr>opt_learning_rate := starting_lr\<rparr>"

text \<open>
  Modelled from the spec: the \<^verbatim>\<open>Replay_Buffer\<close> class, which is not in the source file.
  The spec: insertion evicts the oldest entry when the buffer is full; sampling fails with
  \<open>InsufficientDataError\<close> if the buffer holds fewer than \<open>batch_size\<close> transitions,
  does not change the contents, and returns five parallel sequences aligned by index.
  A done flag becomes the number 1 or 0, as \<open>1 \<minus> dones\<close> in the critic's target needs.
\<close>

definition Replay_Buffer_init :: "nat \<Rightarrow> int \<Rightarrow> 'r \<Rightarrow> ('r, 's) Replay_Buffer_over" where
  "Replay_Buffer_init n b s = \<lparr>items = [], capacity = n, rb_batch_size = b, rng = s\<rparr>"

definition add_experience :: "('r, 's) Replay_Buffer_over \<Rightarrow> 's transition_over \<Rightarrow> ('r, 's) Replay_Buffer_over" where
  "add_experience rb t =
     (let xs = items rb @ [t] in rb\<lparr>items := drop (length xs - capacity rb) xs\<rparr>)"

definition decompose :: "('s::{zero,one}) transition_over list \<Rightarrow> 's batch_over" where
  "decompose ts =
     \<lparr>b_states = map t_state ts,
      b_actions = map t_action ts,
      b_rewards = map (\<lambda>t. [t_reward t]) ts,
      b_next_states = map t_next_state ts,
      b_dones = map (\<lambda>t. [if t_done t then 1 else 0]) ts\<rparr>"

definition sample ::
  "('e, 'n, 'r, 'o, 'g, 's::{zero,one,plus,minus,uminus,times,inverse}) collaborators_over \<Rightarrow> ('r, 's) Replay_Buffer_over \<Rightarrow> error + 's batch_over \<times> ('r, 's) Replay_Buffer_over" where
  "sample B rb =
     (if int (length (items rb)) < rb_batch_size rb then Inl InsufficientDataError
      else (let (ts, r) = random_sample B (rng rb) (items rb) (rb_batch_size rb)
            in Inr (decompose ts, rb\<lparr>rng := r\<rparr>)))"

definition log_call :: "'s event_over \<Rightarrow> ('e, 'n, 'r, 'o, 's) agent_over \<Rightarrow> ('e, 'n, 'r, 'o, 's) agent_over" where
  "log_call e ag = ag\<lparr>calls := calls ag @ [e]\<rparr>"

text \<open>
  Modelled from the spec: \<^verbatim>\<open>Base_Agent.enough_experiences_to_learn_from\<close>, which is not
  in the source file. The spec: learning triggers when the buffer has at least
  \<open>batch_size\<close> entries.
\<close>

definition enough_experiences_to_learn_from :: "('e, 'n, 'r, 'o, 's) agent_over \<Rightarrow> bool" where
  "enough_experiences_to_learn_from ag =
     (batch_size (hyperparameters ag) \<le> int (length (items (memory ag))))"

text \<open>
  Modelled from the spec: \<^verbatim>\<open>Base_Agent.conduct_action\<close>, which is not in the source
  file. The spec: execute the action in the environment to obtain reward, next state and
  done.
\<close>

definition conduct_action ::
  "('e, 'n, 'r, 'o, 'g, 's::{zero,one,plus,minus,uminus,times,inverse}) collaborators_over \<Rightarrow> 's list \<Rightarrow> ('e, 'n, 'r, 'o, 's) agent_over
     \<Rightarrow> ('e, 'n, 'r, 'o, 's) agent_over" where
  "conduct_action B a ag =
     (let (e, ns, r, d) = environment_step B (environment ag) a
      in log_call (Conduct_Action a)
           (ag\<lparr>environment := e, next_state := ns, reward := r, done_flag := d\<rparr>))"

text \<open>
  Modelled from the spec: \<^verbatim>\<open>Base_Agent.save_experience\<close>, which is not in the source
  file. The spec: appends the realized transition to the replay buffer unconditionally.
\<close>

definition save_experience :: "('e, 'n, 'r, 'o, 's) agent_over \<Rightarrow> ('e, 'n, 'r, 'o, 's) agent_over" where
  "save_experience ag =
     log_call Save_Experience
       (ag\<lparr>memory := add_experience (memory ag)
               \<lparr>t_state = state ag, t_action = action ag, t_reward = reward ag,
                t_next_state = next_state ag, t_done = done_flag ag\<rparr>\<rparr>)"

section \<open>The methods of the agent\<close>

text \<open>
  \<^verbatim>\<open>__init__\<close>, after \<^verbatim>\<open>Base_Agent.__init__\<close> has produced \<open>base\<close>. The state that
  \<^verbatim>\<open>create_NN\<close> draws initial parameters from is threaded through its four calls.
  \<^verbatim>\<open>copy_model_over\<close> changes its second argument in place; here its result becomes the
  parameters of the target network.
\<close>

definition DDPG_init ::
  "('e, 'n, 'r, 'o, 'g, 's::{zero,one,plus,minus,uminus,times,inverse}) collaborators_over \<Rightarrow> 's hyperparameters_over \<Rightarrow> 'r \<Rightarrow> nat \<Rightarrow> nat
     \<Rightarrow> ('e, 'n, 'r, 'o, 's) agent_over \<Rightarrow> ('e, 'n, 'r, 'o, 's) agent_over" where
  "DDPG_init B hp seed state_size action_size base =
     (let ag = base\<lparr>hyperparameters := hp\<rparr>;
          (lc, s1) = create_NN B seed (state_size + action_size) 1 ''Critic'';
          ag = ag\<lparr>critic_local := lc\<rparr>;
          (tc, s2) = create_NN B s1 (state_size + action_size) 1 ''Critic'';
          ag = ag\<lparr>critic_target := tc\<rparr>;
          ag = ag\<lparr>critic_target := copy_model_over B (critic_local ag) (critic_target ag)\<rparr>;
          ag = ag\<lparr>critic_optimizer :=
                    \<lparr>opt_learning_rate = learning_rate (Critic (hyperparameters ag)),
                     opt_eps = 1 / 10000,
                     opt_state = adam_init B (critic_local ag)\<rparr>\<rparr>;
          ag = ag\<lparr>memory :=
                    Replay_Buffer_init (buffer_size (Critic (hyperparameters ag)))
                      (batch_size (hyperparameters ag)) seed\<rparr>;
          (la, s3) = create_NN B s2 state_size action_size ''Actor'';
          ag = ag\<lparr>actor_local := la\<rparr>;
          (ta, s4) = create_NN B s3 state_size action_size ''Actor'';
          ag = ag\<lparr>actor_target := ta\<rparr>;
          ag = ag\<lparr>actor_target := copy_model_over B (actor_local ag) (actor_target ag)\<rparr>;
          ag = ag\<lparr>actor_optimizer :=
                    \<lparr>opt_learning_rate = learning_rate (Actor (hyperparameters ag)),
                     opt_eps = 1 / 10000,
                     opt_state = adam_init B (actor_local ag)\<rparr>\<rparr>;
          ag = ag\<lparr>exploration_strategy := noise_init B\<rparr>
      in ag)"

text \<open>
  \<^verbatim>\<open>critic_grad_fn\<close> and \<^verbatim>\<open>actor_grad_fn\<close>: \<^verbatim>\<open>value_and_grad\<close> of the loss with
  respect to the trainable parameters of the local network. The other arguments of the
  loss, the critic's targets among them, are constants of the differentiation.
\<close>

definition critic_grad_fn ::
  "('e, 'n, 'r, 'o, 'g, 's::{zero,one,plus,minus,uminus,times,inverse}) collaborators_over \<Rightarrow> ('e, 'n, 'r, 'o, 's) agent_over \<Rightarrow> 's tensor_over \<Rightarrow> 's tensor_over \<Rightarrow> 's tensor_over
     \<Rightarrow> 's \<times> 'g" where
  "critic_grad_fn B ag states actions critic_targets =
     value_and_grad B
       (\<lambda>w. compute_loss B (ag\<lparr>critic_local := w\<rparr>) states actions critic_targets)
       (critic_local ag)"

definition actor_grad_fn ::
  "('e, 'n, 'r, 'o, 'g, 's::{zero,one,plus,minus,uminus,times,inverse}) collaborators_over \<Rightarrow> ('e, 'n, 'r, 'o, 's) agent_over \<Rightarrow> 's tensor_over \<Rightarrow> 's \<times> 'g" where
  "actor_grad_fn B ag states =
     value_and_grad B (\<lambda>w. calculate_actor_loss B (ag\<lparr>actor_local := w\<rparr>) states)
       (actor_local ag)"

definition sample_experiences ::
  "('e, 'n, 'r, 'o, 'g, 's::{zero,one,plus,minus,uminus,times,inverse}) collaborators_over \<Rightarrow> ('e, 'n, 'r, 'o, 's) agent_over
     \<Rightarrow> error + 's batch_over \<times> ('e, 'n, 'r, 'o, 's) agent_over" where
  "sample_experiences B ag =
     (case sample B (memory ag) of
        Inl e \<Rightarrow> Inl e
      | Inr (b, rb) \<Rightarrow> Inr (b, log_call (Sample_Experiences b) (ag\<lparr>memory := rb\<rparr>)))"

text \<open>
  \<^verbatim>\<open>pick_action\<close> with \<^verbatim>\<open>state=None\<close>, as \<^verbatim>\<open>step\<close> calls it. \<^verbatim>\<open>unsqueeze(0)\<close>
  makes the state a batch of one row; \<^verbatim>\<open>squeeze(0)\<close> takes the one row back and raises
  on any other number of rows. \<^verbatim>\<open>set_train\<close> changes no parameter.
\<close>

definition pick_action ::
  "('e, 'n, 'r, 'o, 'g, 's::{zero,one,plus,minus,uminus,times,inverse}) collaborators_over \<Rightarrow> ('e, 'n, 'r, 'o, 's) agent_over
     \<Rightarrow> error + 's list \<times> ('e, 'n, 'r, 'o, 's) agent_over" where
  "pick_action B ag =
     (let st = [state ag];
          a = actor_network B (actor_local ag) st;
          (a', n) = perturb_action_for_exploration_purposes B (exploration_strategy ag) a
      in case a' of
           [row] \<Rightarrow> Inr (row, ag\<lparr>exploration_strategy := n\<rparr>)
         | _ \<Rightarrow> Inl ValueError)"

definition critic_learn ::
  "('e, 'n, 'r, 'o, 'g, 's::{zero,one,plus,minus,uminus,times,inverse}) collaborators_over \<Rightarrow> ('e, 'n, 'r, 'o, 's) agent_over \<Rightarrow> 's tensor_over \<Rightarrow> 's tensor_over \<Rightarrow> 's tensor_over
     \<Rightarrow> 's tensor_over \<Rightarrow> 's tensor_over \<Rightarrow> ('e, 'n, 'r, 'o, 's) agent_over" where
  "critic_learn B ag states actions rewards next_states dones =
     (let critic_targets = compute_critic_targets B ag next_states rewards dones;
          (loss, grads) = critic_grad_fn B ag states actions critic_targets;
          ag = log_call (Critic_Grad states actions critic_targets) ag;
          (opt, w) = take_optimisation_step B (critic_optimizer ag) grads
                       (gradient_clipping_norm (Critic (hyperparameters ag))) (critic_local ag);
          ag = log_call (Optimisation_Step Critic_Net)
                 (ag\<lparr>critic_optimizer := opt, critic_local := w\<rparr>);
          ag = log_call (Soft_Update Critic_Net)
                 (ag\<lparr>critic_target :=
                       soft_update_of_target_network (critic_local ag) (critic_target ag)
                         (tau (Critic (hyperparameters ag)))\<rparr>)
      in ag)"

definition actor_learn ::
  "('e, 'n, 'r, 'o, 'g, 's::{zero,one,plus,minus,uminus,times,inverse}) collaborators_over \<Rightarrow> ('e, 'n, 'r, 'o, 's) agent_over \<Rightarrow> 's tensor_over
     \<Rightarrow> ('e, 'n, 'r, 'o, 's) agent_over" where
  "actor_learn B ag states =
     (let ag = (if done_flag ag
                then log_call (Update_Learning_Rate (learning_rate (Actor (hyperparameters ag))))
                       (ag\<lparr>actor_optimizer :=
                             update_learning_rate (learning_rate (Actor (hyperparameters ag)))
                               (actor_optimizer ag)\<rparr>)
                else ag);
          (loss, grads) = actor_grad_fn B ag states;
          ag = log_call (Actor_Grad states) ag;
          (opt, w) = take_optimisation_step B (actor_optimizer ag) grads
                       (gradient_clipping_norm (Actor (hyperparameters ag))) (actor_local ag);
          ag = log_call (Optimisation_Step Actor_Net)
                 (ag\<lparr>actor_optimizer := opt, actor_local := w\<rparr>);
          ag = log_call (Soft_Update Actor_Net)
                 (ag\<lparr>actor_target :=
                       soft_update_of_target_network (actor_local ag) (actor_target ag)
                         (tau (Actor (hyperparameters ag)))\<rparr>)
      in ag)"

text \<open>
  \<^verbatim>\<open>time_for_critic_and_actor_to_learn\<close>. Python's \<^verbatim>\<open>and\<close> evaluates the remainder only
  when there are enough experiences, and \<^verbatim>\<open>%\<close> raises on a zero divisor. On integers
  \<open>mod\<close> is Python's \<^verbatim>\<open>%\<close>: the remainder has the sign of the divisor.
\<close>

definition time_for_critic_and_actor_to_learn :: "('e, 'n, 'r, 'o, 's) agent_over \<Rightarrow> error + bool" where
  "time_for_critic_and_actor_to_learn ag =
     (if enough_experiences_to_learn_from ag
      then (if update_every_n_steps (hyperparameters ag) = 0 then Inl ZeroDivisionError
            else Inr (global_step_number ag mod update_every_n_steps (hyperparameters ag) = 0))
      else Inr False)"

text \<open>One pass of the body of the \<^verbatim>\<open>for\<close> loop of \<^verbatim>\<open>step\<close>.\<close>

definition learn_once ::
  "('e, 'n, 'r, 'o, 'g, 's::{zero,one,plus,minus,uminus,times,inverse}) collaborators_over \<Rightarrow> ('e, 'n, 'r, 'o, 's) agent_over \<Rightarrow> error + ('e, 'n, 'r, 'o, 's) agent_over" where
  "learn_once B ag =
     (case sample_experiences B ag of
        Inl e \<Rightarrow> Inl e
      | Inr (b, ag) \<Rightarrow>
          (let ag = critic_learn B ag (b_states b) (b_actions b) (b_rewards b)
                      (b_next_states b) (b_dones b);
               ag = actor_learn B ag (b_states b)
           in Inr ag))"

text \<open>\<^verbatim>\<open>for _ in range(n)\<close>: the body \<open>n\<close> times, stopping at the first exception.\<close>

fun learning_session ::
  "('e, 'n, 'r, 'o, 'g, 's::{zero,one,plus,minus,uminus,times,inverse}) collaborators_over \<Rightarrow> nat \<Rightarrow> ('e, 'n, 'r, 'o, 's) agent_over
     \<Rightarrow> error + ('e, 'n, 'r, 'o, 's) agent_over" where
  "learning_session B 0 ag = Inr ag"
| "learning_session B (Suc k) ag =
     (case learn_once B ag of Inl e \<Rightarrow> Inl e | Inr ag' \<Rightarrow> learning_session B k ag')"

text \<open>
  One pass of the body of the \<^verbatim>\<open>while\<close> loop of \<^verbatim>\<open>step\<close>. \<^verbatim>\<open>range(n)\<close> is empty for
  a negative \<open>n\<close>, which is \<open>nat n = 0\<close> passes.
\<close>

definition step_iteration ::
  "('e, 'n, 'r, 'o, 'g, 's::{zero,one,plus,minus,uminus,times,inverse}) collaborators_over \<Rightarrow> ('e, 'n, 'r, 'o, 's) agent_over \<Rightarrow> error + ('e, 'n, 'r, 'o, 's) agent_over" where
  "step_iteration B ag =
     (case pick_action B ag of
        Inl e \<Rightarrow> Inl e
      | Inr (a, ag) \<Rightarrow>
          (let ag = ag\<lparr>action := a\<rparr>;
               ag = conduct_action B (action ag) ag
           in case time_for_critic_and_actor_to_learn ag of
                Inl e \<Rightarrow> Inl e
              | Inr t \<Rightarrow>
                  (case (if t then learning_session B
                                     (nat (learning_updates_per_learning_session (hyperparameters ag))) ag
                         else Inr ag) of
                     Inl e \<Rightarrow> Inl e
                   | Inr ag \<Rightarrow>
                       (let ag = save_experience ag;
                            ag = ag\<lparr>state := next_state ag\<rparr>;
                            ag = ag\<lparr>global_step_number := global_step_number ag + 1\<rparr>
                        in Inr ag))))"

text \<open>
  \<^verbatim>\<open>while not self.done\<close>: the loop ends when the environment reports the end of the
  episode, which it may never do; \<open>None\<close> is a loop that does not end.
\<close>

partial_function (option) step_loop ::
  "('e, 'n, 'r, 'o, 'g, 's::{zero,one,plus,minus,uminus,times,inverse}) collaborators_over \<Rightarrow> ('e, 'n, 'r, 'o, 's) agent_over
     \<Rightarrow> (error + ('e, 'n, 'r, 'o, 's) agent_over) option" where
  "step_loop B ag =
     (if done_flag ag then Some (Inr ag)
      else (case step_iteration B ag of
              Inl e \<Rightarrow> Some (Inl e)
            | Inr ag' \<Rightarrow> step_loop B ag'))"

definition step ::
  "('e, 'n, 'r, 'o, 'g, 's::{zero,one,plus,minus,uminus,times,inverse}) collaborators_over \<Rightarrow> ('e, 'n, 'r, 'o, 's) agent_over
     \<Rightarrow> (error + ('e, 'n, 'r, 'o, 's) agent_over) option" where
  "step B ag =
     (case step_loop B ag of
        None \<Rightarrow> None
      | Some (Inl e) \<Rightarrow> Some (Inl e)
      | Some (Inr ag') \<Rightarrow> Some (Inr (ag'\<lparr>episode_number := episode_number ag' + 1\<rparr>)))"

section \<open>Traces\<close>

text \<open>
  The calls of one pass of the \<^verbatim>\<open>for\<close> loop of \<^verbatim>\<open>step\<close>, in their order: the batch
  \<open>b\<close> is sampled, the critic learns from it with the targets \<open>y\<close>, then the actor learns
  from the states of \<open>b\<close>; \<open>d\<close> is the done flag and \<open>lr\<close> the learning rate handed to
  \<^verbatim>\<open>update_learning_rate\<close>.
\<close>

definition learning_block_events :: "'s batch_over \<Rightarrow> 's tensor_over \<Rightarrow> bool \<Rightarrow> real \<Rightarrow> 's event_over list" where
  "learning_block_events b y d lr =
     [Sample_Experiences b,
      Critic_Grad (b_states b) (b_actions b) y,
      Optimisation_Step Critic_Net,
      Soft_Update Critic_Net]
     @ (if d then [Update_Learning_Rate lr] else [])
     @ [Actor_Grad (b_states b),
        Optimisation_Step Actor_Net,
        Soft_Update Actor_Net]"

text \<open>
  The batches of \<open>k\<close> calls of \<^verbatim>\<open>sample\<close> in a row on a buffer with the contents
  \<open>xs\<close>: every call draws anew, from the state in which the call before it left the random
  generator.
\<close>

fun draws ::
  "('e, 'n, 'r, 'o, 'g, 's::{zero,one,plus,minus,uminus,times,inverse}) collaborators_over \<Rightarrow> 'r \<Rightarrow> 's transition_over list \<Rightarrow> int \<Rightarrow> nat \<Rightarrow> 's batch_over list" where
  "draws B r xs m 0 = []"
| "draws B r xs m (Suc k) =
     (let (ts, r') = random_sample B r xs m in decompose ts # draws B r' xs m k)"

text \<open>Kinds of calls, for counting them in a trace.\<close>

fun is_sample :: "'s event_over \<Rightarrow> bool" where
  "is_sample (Sample_Experiences b) = True"
| "is_sample _ = False"

fun is_critic_grad :: "'s event_over \<Rightarrow> bool" where
  "is_critic_grad (Critic_Grad s a y) = True"
| "is_critic_grad _ = False"

fun is_actor_grad :: "'s event_over \<Rightarrow> bool" where
  "is_actor_grad (Actor_Grad s) = True"
| "is_actor_grad _ = False"

section \<open>float32\<close>

text \<open>
  The scalars of the program are IEEE 754 binary32 numbers. A \<open>float32\<close> is a real number,
  one of the two infinities, or NaN; the sign of a zero is not kept (no operation of
  \<^verbatim>\<open>DDPG.py\<close> divides by an entry of a tensor). \<open>round32\<close> rounds a real number to the
  nearest number with a significand of 24 bits and an exponent of at least \<open>\<minus>126\<close>, ties to
  the even significand, and \<open>fl\<close> adds the overflow to an infinity at \<open>2\<^sup>1\<^sup>2\<^sup>8\<close>.
\<close>

datatype float32 = Fin real | PInf | NInf | NaN

definition rne :: "real \<Rightarrow> int" where
  "rne m =
     (let f = \<lfloor>m\<rfloor>; d = m - real_of_int f
      in if d < 1 / 2 then f
         else if 1 / 2 < d then f + 1
         else if even f then f else f + 1)"

definition ulp32 :: "real \<Rightarrow> real" where
  "ulp32 x = 2 powr (real_of_int (max \<lfloor>log 2 \<bar>x\<bar>\<rfloor> (- 126)) - 23)"

definition round32 :: "real \<Rightarrow> real" where
  "round32 x = (if x = 0 then 0 else real_of_int (rne (x / ulp32 x)) * ulp32 x)"

definition fl :: "real \<Rightarrow> float32" where
  "fl x =
     (let r = round32 x
      in if 2 ^ 128 \<le> r then PInf else if r \<le> - (2 ^ 128) then NInf else Fin r)"

fun float32_neg :: "float32 \<Rightarrow> float32" where
  "float32_neg (Fin x) = Fin (- x)"
| "float32_neg PInf = NInf"
| "float32_neg NInf = PInf"
| "float32_neg NaN = NaN"

fun float32_add :: "float32 \<Rightarrow> float32 \<Rightarrow> float32" where
  "float32_add (Fin x) (Fin y) = fl (x + y)"
| "float32_add NaN b = NaN"
| "float32_add a NaN = NaN"
| "float32_add PInf NInf = NaN"
| "float32_add NInf PInf = NaN"
| "float32_add PInf b = PInf"
| "float32_add a PInf = PInf"
| "float32_add NInf b = NInf"
| "float32_add a NInf = NInf"

fun float32_mul :: "float32 \<Rightarrow> float32 \<Rightarrow> float32" where
  "float32_mul (Fin x) (Fin y) = fl (x * y)"
| "float32_mul NaN b = NaN"
| "float32_mul a NaN = NaN"
| "float32_mul (Fin x) PInf = (if x = 0 then NaN else if 0 < x then PInf else NInf)"
| "float32_mul (Fin x) NInf = (if x = 0 then NaN else if 0 < x then NInf else PInf)"
| "float32_mul PInf (Fin y) = (if y = 0 then NaN else if 0 < y then PInf else NInf)"
| "float32_mul NInf (Fin y) = (if y = 0 then NaN else if 0 < y then NInf else PInf)"
| "float32_mul PInf PInf = PInf"
| "float32_mul PInf NInf = NInf"
| "float32_mul NInf PInf = NInf"
| "float32_mul NInf NInf = PInf"

fun float32_div :: "float32 \<Rightarrow> float32 \<Rightarrow> float32" where
  "float32_div (Fin x) (Fin y) =
     (if y = 0 then (if x = 0 then NaN else if 0 < x then PInf else NInf) else fl (x / y))"
| "float32_div NaN b = NaN"
| "float32_div a NaN = NaN"
| "float32_div (Fin x) PInf = Fin 0"
| "float32_div (Fin x) NInf = Fin 0"
| "float32_div PInf (Fin y) = (if 0 \<le> y then PInf else NInf)"
| "float32_div NInf (Fin y) = (if 0 \<le> y then NInf else PInf)"
| "float32_div PInf b = NaN"
| "float32_div NInf b = NaN"

instantiation float32 :: "{zero,one,plus,minus,uminus,times,inverse}"
begin

definition zero_float32 :: float32 where
  "zero_float32 = Fin 0"

definition one_float32 :: float32 where
  "one_float32 = Fin 1"

definition plus_float32 :: "float32 \<Rightarrow> float32 \<Rightarrow> float32" where
  "plus_float32 a b = float32_add a b"

definition uminus_float32 :: "float32 \<Rightarrow> float32" where
  "uminus_float32 a = float32_neg a"

definition minus_float32 :: "float32 \<Rightarrow> float32 \<Rightarrow> float32" where
  "minus_float32 a b = float32_add a (float32_neg b)"

definition times_float32 :: "float32 \<Rightarrow> float32 \<Rightarrow> float32" where
  "times_float32 a b = float32_mul a b"

definition divide_float32 :: "float32 \<Rightarrow> float32 \<Rightarrow> float32" where
  "divide_float32 a b = float32_div a b"

definition inverse_float32 :: "float32 \<Rightarrow> float32" where
  "inverse_float32 a = float32_div (Fin 1) a"

instance ..

end

section \<open>Example data\<close>

text \<open>A small configuration on which the statements below are evaluated.\<close>

definition demo_hyperparameters :: hyperparameters where
  "demo_hyperparameters =
     \<lparr>Actor = \<lparr>learning_rate = 1 / 100, gradient_clipping_norm = 5, tau = 1 / 2, buffer_size = 5\<rparr>,
      Critic = \<lparr>learning_rate = 1 / 50, gradient_clipping_norm = 5, tau = 1 / 4, buffer_size = 5\<rparr>,
      batch_size = 2,
      discount_rate = 9 / 10,
      update_every_n_steps = 1,
      learning_updates_per_learning_session = 2\<rparr>"

definition demo_collaborators :: "(unit, unit, nat, unit, real list) collaborators" where
  "demo_collaborators =
     \<lparr>critic_network = (\<lambda>w x. map (\<lambda>row. [sum_list w * sum_list row]) x),
      actor_network = (\<lambda>w x. map (\<lambda>row. [sum_list w + sum_list row]) x),
      value_and_grad = (\<lambda>f w. (f w, map (\<lambda>_. 1) w)),
      take_optimisation_step = (\<lambda>opt g c w. (opt, map2 (\<lambda>x d. x - opt_learning_rate opt * d) w g)),
      environment_step = (\<lambda>e a. (e, a, 1, True)),
      perturb_action_for_exploration_purposes = (\<lambda>n a. (a, n)),
      random_sample = (\<lambda>r xs k. (take (nat k) xs, Suc r)),
      create_NN = (\<lambda>r i k s. (replicate (i * k) (real r), Suc r)),
      copy_model_over = (\<lambda>from_model to_model. from_model),
      adam_init = (\<lambda>w. ()),
      noise_init = ()\<rparr>"

definition demo_memory :: "nat Replay_Buffer" where
  "demo_memory =
     \<lparr>items = [\<lparr>t_state = [1], t_action = [0], t_reward = 4, t_next_state = [2], t_done = False\<rparr>,
               \<lparr>t_state = [2], t_action = [1], t_reward = 5, t_next_state = [3], t_done = True\<rparr>],
      capacity = 5, rb_batch_size = 2, rng = 0\<rparr>"

definition demo_agent :: "(unit, unit, nat, unit) agent" where
  "demo_agent =
     \<lparr>hyperparameters = demo_hyperparameters,
      critic_local = [1], critic_target = [2], actor_local = [3], actor_target = [4],
      critic_optimizer = \<lparr>opt_learning_rate = 1 / 50, opt_eps = 1 / 10000, opt_state = ()\<rparr>,
      actor_optimizer = \<lparr>opt_learning_rate = 1 / 100, opt_eps = 1 / 10000, opt_state = ()\<rparr>,
      memory = demo_memory,
      exploration_strategy = (),
      environment = (),
      state = [3], next_state = [3], action = [1], reward = 5, done_flag = False,
      global_step_number = 2, episode_number = 0, calls = []\<rparr>"

definition demo_batch :: batch where
  "demo_batch =
     \<lparr>b_states = [[1], [2]], b_actions = [[0], [1]], b_rewards = [[4], [5]],
      b_next_states = [[2], [3]], b_dones = [[0], [1]]\<rparr>"

definition demo_sampled :: "(unit, unit, nat, unit) agent" where
  "demo_sampled =
     log_call (Sample_Experiences demo_batch) (demo_agent\<lparr>memory := demo_memory\<lparr>rng := Suc 0\<rparr>\<rparr>)"

text \<open>
  Data over \<open>float32\<close>: a critic and an actor whose output is 0 on every row, a
  \<^verbatim>\<open>value_and_grad\<close> that reports the loss it is given, and an optimisation step that
  leaves the parameters as they are. \<open>big\<close> is a reward of \<open>2\<^sup>1\<^sup>0\<^sup>0\<close>, a float32 number whose
  square is not one. The second collaborators have a critic that has diverged: its output
  is \<open>+\<infinity>\<close>.
\<close>

definition big :: real where
  "big = 2 ^ 100"

definition f32_hyperparameters :: "float32 hyperparameters_over" where
  "f32_hyperparameters =
     \<lparr>Actor = \<lparr>learning_rate = 1 / 100, gradient_clipping_norm = 5, tau = 1 / 2, buffer_size = 5\<rparr>,
      Critic = \<lparr>learning_rate = 1 / 50, gradient_clipping_norm = 5, tau = 1 / 4, buffer_size = 5\<rparr>,
      batch_size = 1,
      discount_rate = Fin (1 / 2),
      update_every_n_steps = 1,
      learning_updates_per_learning_session = 1\<rparr>"

definition f32_collaborators :: "(unit, unit, nat, unit, unit, float32) collaborators_over" where
  "f32_collaborators =
     \<lparr>critic_network = (\<lambda>w x. map (\<lambda>row. [Fin 0]) x),
      actor_network = (\<lambda>w x. map (\<lambda>row. [Fin 0]) x),
      value_and_grad = (\<lambda>f w. (f w, ())),
      take_optimisation_step = (\<lambda>opt g c w. (opt, w)),
      environment_step = (\<lambda>e a. (e, a, Fin 1, True)),
      perturb_action_for_exploration_purposes = (\<lambda>n a. (a, n)),
      random_sample = (\<lambda>r xs k. (take (nat k) xs, Suc r)),
      create_NN = (\<lambda>r i k s. (replicate (i * k) (real r), Suc r)),
      copy_model_over = (\<lambda>from_model to_model. from_model),
      adam_init = (\<lambda>w. ()),
      noise_init = ()\<rparr>"

definition diverged_collaborators :: "(unit, unit, nat, unit, unit, float32) collaborators_over" where
  "diverged_collaborators = f32_collaborators\<lparr>critic_network := (\<lambda>w x. map (\<lambda>row. [PInf]) x)\<rparr>"

definition f32_agent :: "(unit, unit, nat, unit, float32) agent_over" where
  "f32_agent =
     \<lparr>hyperparameters = f32_hyperparameters,
      critic_local = [1], critic_target = [2], actor_local = [3], actor_target = [4],
      critic_optimizer = \<lparr>opt_learning_rate = 1 / 50, opt_eps = 1 / 10000, opt_state = ()\<rparr>,
      actor_optimizer = \<lparr>opt_learning_rate = 1 / 100, opt_eps = 1 / 10000, opt_state = ()\<rparr>,
      memory = \<lparr>items = [\<lparr>t_state = [Fin 1], t_action = [Fin 0], t_reward = Fin big,
                          t_next_state = [Fin 1], t_done = True\<rparr>],
                capacity = 5, rb_batch_size = 1, rng = 0\<rparr>,
      exploration_strategy = (),
      environment = (),
      state = [Fin 1], next_state = [Fin 1], action = [Fin 0], reward = Fin big,
      done_flag = True,
      global_step_number = 0, episode_number = 0, calls = []\<rparr>"

definition f32_batch :: "float32 batch_over" where
  "f32_batch =
     \<lparr>b_states = [[Fin 1]], b_actions = [[Fin 0]], b_rewards = [[Fin big]],
      b_next_states = [[Fin 1]], b_dones = [[Fin 1]]\<rparr>"

definition f32_sampled :: "(unit, unit, nat, unit, float32) agent_over" where
  "f32_sampled =
     log_call (Sample_Experiences f32_batch)
       (f32_agent\<lparr>memory := (memory f32_agent)\<lparr>rng := Suc 0\<rparr>\<rparr>)"

section \<open>Properties\<close>

subsection \<open>Rounding to float32\<close>

lemma rne_int: "rne (real_of_int m) = m"
  by (simp add: rne_def)

lemma round32_exact:
  assumes lo: "2 powr real_of_int e \<le> \<bar>x\<bar>"
    and hi: "\<bar>x\<bar> < 2 powr (real_of_int e + 1)"
    and e: "- 126 \<le> e"
    and m: "x = real_of_int m * 2 powr (real_of_int e - 23)"
  shows "round32 x = x"
proof -
  have p: "0 < \<bar>x\<bar>" using lo by (smt (verit) powr_gt_zero)
  then have nz: "x \<noteq> 0" by simp
  have "\<lfloor>log 2 \<bar>x\<bar>\<rfloor> = e"
    using floor_log_eq_powr_iff [of "\<bar>x\<bar>" 2 e] p lo hi by simp
  then have u: "ulp32 x = 2 powr (real_of_int e - 23)"
    using e by (simp add: ulp32_def max_def)
  have "x / ulp32 x = real_of_int m" unfolding u using m by simp
  then have "rne (x / ulp32 x) = m" by (simp add: rne_int)
  then show ?thesis using nz u m by (simp add: round32_def)
qed

lemma round32_0: "round32 0 = 0"
  by (simp add: round32_def)

lemma fl_0: "fl 0 = Fin 0"
  by (simp add: fl_def round32_0)

lemma fl_exact:
  "round32 x = x \<Longrightarrow> \<bar>x\<bar> < 2 ^ 128 \<Longrightarrow> fl x = Fin x"
  by (auto simp add: fl_def Let_def)

lemma round32_pow2: "round32 (2 ^ n) = 2 ^ n"
proof (rule round32_exact [where e = "int n" and m = "2 ^ 23"])
  show "2 powr real_of_int (int n) \<le> \<bar>2 ^ n :: real\<bar>" by (simp add: powr_realpow)
  show "\<bar>2 ^ n :: real\<bar> < 2 powr (real_of_int (int n) + 1)"
    by (simp add: powr_add powr_realpow)
  show "- 126 \<le> int n" by simp
  show "(2 ^ n :: real) = real_of_int (2 ^ 23) * 2 powr (real_of_int (int n) - 23)"
    by (simp add: powr_diff powr_realpow)
qed

lemma round32_neg_pow2: "round32 (- (2 ^ n)) = - (2 ^ n)"
proof (rule round32_exact [where e = "int n" and m = "- (2 ^ 23)"])
  show "2 powr real_of_int (int n) \<le> \<bar>- (2 ^ n) :: real\<bar>" by (simp add: powr_realpow)
  show "\<bar>- (2 ^ n) :: real\<bar> < 2 powr (real_of_int (int n) + 1)"
    by (simp add: powr_add powr_realpow)
  show "- 126 \<le> int n" by simp
  show "(- (2 ^ n) :: real) = real_of_int (- (2 ^ 23)) * 2 powr (real_of_int (int n) - 23)"
    by (simp add: powr_diff powr_realpow)
qed

lemma round32_1: "round32 1 = 1"
  using round32_pow2 [of 0] by simp

lemma round32_5: "round32 5 = 5"
proof (rule round32_exact [where e = 2 and m = "5 * 2 ^ 21"])
  show "2 powr real_of_int 2 \<le> \<bar>5 :: real\<bar>" by simp
  show "\<bar>5 :: real\<bar> < 2 powr (real_of_int 2 + 1)" by simp
  show "- 126 \<le> (2::int)" by simp
  show "(5::real) = real_of_int (5 * 2 ^ 21) * 2 powr (real_of_int 2 - 23)"
    by (simp add: powr_minus powr_numeral)
qed

lemma fl_1: "fl 1 = Fin 1"
  by (rule fl_exact) (simp_all add: round32_1)

lemma fl_5: "fl 5 = Fin 5"
  by (rule fl_exact) (simp_all add: round32_5)

lemma fl_pow2_small:
  assumes "n < 128"
  shows "fl (2 ^ n) = Fin (2 ^ n)"
proof (rule fl_exact)
  show "round32 (2 ^ n) = 2 ^ n" by (rule round32_pow2)
  have "(2::real) ^ n < 2 ^ 128" using assms by (intro power_strict_increasing) simp_all
  moreover have "\<bar>2 ^ n :: real\<bar> = 2 ^ n" by simp
  ultimately show "\<bar>2 ^ n :: real\<bar> < 2 ^ 128" by (simp only:)
qed

lemma fl_neg_pow2_small:
  assumes "n < 128"
  shows "fl (- (2 ^ n)) = Fin (- (2 ^ n))"
proof (rule fl_exact)
  show "round32 (- (2 ^ n)) = - (2 ^ n)" by (rule round32_neg_pow2)
  have "(2::real) ^ n < 2 ^ 128" using assms by (intro power_strict_increasing) simp_all
  moreover have "\<bar>- (2 ^ n) :: real\<bar> = 2 ^ n" by simp
  ultimately show "\<bar>- (2 ^ n) :: real\<bar> < 2 ^ 128" by (simp only:)
qed

lemma fl_pow2_big:
  assumes "128 \<le> n"
  shows "fl (2 ^ n) = PInf"
proof -
  have "(2::real) ^ 128 \<le> 2 ^ n" using assms by (intro power_increasing) simp_all
  then show ?thesis unfolding fl_def Let_def round32_pow2 by (simp only: if_True)
qed

subsection \<open>Tensor entries\<close>

lemma shape_eq_length: "shape a = shape b \<Longrightarrow> length a = length b"
  unfolding shape_def by (rule map_eq_imp_length_eq)

lemma shape_eq_row: "shape a = shape b \<Longrightarrow> i < length b \<Longrightarrow> length (a ! i) = length (b ! i)"
  unfolding shape_def by (metis length_map nth_map)

lemma shape_scalar_mul: "shape (scalar_mul c t) = shape t"
  by (simp add: shape_def scalar_mul_def comp_def)

lemma shape_scalar_sub: "shape (scalar_sub c t) = shape t"
  by (simp add: shape_def scalar_sub_def comp_def)

lemma shape_map2:
  assumes "shape a = shape b"
  shows "shape (map2 (map2 f) a b) = shape b"
proof (rule nth_equalityI)
  have l: "length a = length b" using assms by (rule shape_eq_length)
  show "length (shape (map2 (map2 f) a b)) = length (shape b)"
    using l by (simp add: shape_def)
  fix i assume "i < length (shape (map2 (map2 f) a b))"
  then have i: "i < length b" using l by (simp add: shape_def)
  then show "shape (map2 (map2 f) a b) ! i = shape b ! i"
    using l shape_eq_row [OF assms i] by (simp add: shape_def)
qed

lemma entry_map2:
  assumes "shape a = shape b" "i < length b" "j < length (b ! i)"
  shows "map2 (map2 f) a b ! i ! j = f (a ! i ! j) (b ! i ! j)"
proof -
  have l: "length a = length b" using assms(1) by (rule shape_eq_length)
  have r: "length (a ! i) = length (b ! i)" using assms(1,2) by (rule shape_eq_row)
  show ?thesis using l r assms(2,3) by simp
qed

lemma entry_scalar_mul: "i < length t \<Longrightarrow> j < length (t ! i) \<Longrightarrow> scalar_mul c t ! i ! j = c * (t ! i ! j)"
  by (simp add: scalar_mul_def)

lemma entry_scalar_sub: "i < length t \<Longrightarrow> j < length (t ! i) \<Longrightarrow> scalar_sub c t ! i ! j = c - (t ! i ! j)"
  by (simp add: scalar_sub_def)

lemma entry_current_states:
  assumes q: "shape q = shape rewards" and d: "shape dones = shape rewards"
    and i: "i < length rewards" and j: "j < length (rewards ! i)"
  shows "compute_critic_values_for_current_states ag rewards q dones ! i ! j =
           rewards ! i ! j + discount_rate (hyperparameters ag) * (q ! i ! j) * (1 - dones ! i ! j)"
proof -
  let ?g = "discount_rate (hyperparameters ag)"
  let ?m = "tensor_mul (scalar_mul ?g q) (scalar_sub 1 dones)"
  have sd: "shape (scalar_sub 1 dones) = shape rewards" using d by (simp add: shape_scalar_sub)
  have sq: "shape (scalar_mul ?g q) = shape (scalar_sub 1 dones)"
    using q sd by (simp add: shape_scalar_mul)
  have lq: "length q = length rewards" using q by (rule shape_eq_length)
  have ld: "length dones = length rewards" using d by (rule shape_eq_length)
  have rq: "length (q ! i) = length (rewards ! i)" using q i by (rule shape_eq_row)
  have rd: "length (dones ! i) = length (rewards ! i)" using d i by (rule shape_eq_row)
  have i': "i < length (scalar_sub 1 dones)" using ld i by (simp add: scalar_sub_def)
  have j': "j < length (scalar_sub 1 dones ! i)" using ld rd i j by (simp add: scalar_sub_def)
  have sm: "shape ?m = shape (scalar_sub 1 dones)"
    unfolding tensor_mul_def using sq by (rule shape_map2)
  have m: "?m ! i ! j = ?g * (q ! i ! j) * (1 - dones ! i ! j)"
    unfolding tensor_mul_def
    using entry_map2 [OF sq i' j', of "(*)"] lq ld rq rd i j
    by (simp add: entry_scalar_mul entry_scalar_sub)
  have sr: "shape rewards = shape ?m" using sm sd by simp
  have i'': "i < length ?m" using shape_eq_length [OF sr] i by simp
  have j'': "j < length (?m ! i)" using shape_eq_row [OF sr i''] j by simp
  show ?thesis
    unfolding compute_critic_values_for_current_states_def tensor_add_def
    using entry_map2 [OF sr i'' j'', of "(+)"] m by simp
qed

lemma shape_current_states:
  assumes q: "shape q = shape rewards" and d: "shape dones = shape rewards"
  shows "shape (compute_critic_values_for_current_states ag rewards q dones) = shape rewards"
proof -
  let ?g = "discount_rate (hyperparameters ag)"
  let ?m = "tensor_mul (scalar_mul ?g q) (scalar_sub 1 dones)"
  have sd: "shape (scalar_sub 1 dones) = shape rewards" using d by (simp add: shape_scalar_sub)
  have sq: "shape (scalar_mul ?g q) = shape (scalar_sub 1 dones)"
    using q sd by (simp add: shape_scalar_mul)
  have sm: "shape ?m = shape (scalar_sub 1 dones)"
    unfolding tensor_mul_def using sq by (rule shape_map2)
  have sr: "shape rewards = shape ?m" using sm sd by simp
  show ?thesis
    unfolding compute_critic_values_for_current_states_def tensor_add_def
    using shape_map2 [OF sr, of "(+)"] sr by simp
qed

lemma critic_learn_calls:
  "calls (critic_learn B ag s a r ns d) =
     calls ag @ [Critic_Grad s a (compute_critic_targets B ag ns r d),
                 Optimisation_Step Critic_Net, Soft_Update Critic_Net]"
  by (simp add: critic_learn_def Let_def split_def log_call_def)

lemma f32_one_minus_one: "(1::float32) - 1 = Fin 0"
  by (simp add: one_float32_def minus_float32_def fl_0)

lemma f32_times_zero:
  "Fin z * Fin 0 = Fin 0" "PInf * Fin 0 = NaN" "NInf * Fin 0 = NaN" "NaN * Fin 0 = NaN"
  by (simp_all add: times_float32_def fl_0)

lemma f32_plus_zero: "fl r = Fin r \<Longrightarrow> Fin r + Fin 0 = Fin r"
  by (simp add: plus_float32_def)

lemma f32_plus_NaN: "a + NaN = NaN"
  by (cases a) (simp_all add: plus_float32_def)

text \<open>
  C1, as the code has it. The critic's target is \<open>rewards + \<gamma> \<cdot> q_next \<cdot> (1 \<minus> dones)\<close> with
  \<open>q_next = critic_target(concat(next_states, actor_target(next_states)))\<close>: as tensors, and
  entry by entry when \<open>q_next\<close> and \<open>dones\<close> have the shape of \<open>rewards\<close>, in the arithmetic
  of float32. At an entry whose done flag is 1, whose reward is a float32 number and whose
  product \<open>\<gamma> \<cdot> q_next\<close> is finite, the target is the reward; where that product is an
  infinity or NaN, the target is NaN.
\<close>

theorem critic_target_formula:
  fixes B :: "('e, 'n, 'r, 'o, 'g, float32) collaborators_over"
    and ag :: "('e, 'n, 'r, 'o, float32) agent_over"
  assumes q: "shape (critic_network B (critic_target ag)
                       (cat_axis1 next_states (actor_network B (actor_target ag) next_states)))
              = shape rewards"
    and d: "shape dones = shape rewards"
    and i: "i < length rewards" and j: "j < length (rewards ! i)"
  shows "(let q_next = critic_network B (critic_target ag)
                         (cat_axis1 next_states (actor_network B (actor_target ag) next_states));
              y = compute_critic_targets B ag next_states rewards dones;
              g = discount_rate (hyperparameters ag)
          in y = tensor_add rewards (tensor_mul (scalar_mul g q_next) (scalar_sub 1 dones))
             \<and> shape y = shape rewards
             \<and> y ! i ! j = rewards ! i ! j + g * (q_next ! i ! j) * (1 - dones ! i ! j)
             \<and> (\<forall>r z. dones ! i ! j = 1 \<and> rewards ! i ! j = Fin r \<and> fl r = Fin r
                        \<and> g * (q_next ! i ! j) = Fin z
                    \<longrightarrow> y ! i ! j = rewards ! i ! j)
             \<and> (dones ! i ! j = 1 \<and> g * (q_next ! i ! j) \<in> {PInf, NInf, NaN}
                    \<longrightarrow> y ! i ! j = NaN))"
proof -
  define q_next where "q_next = critic_network B (critic_target ag)
                         (cat_axis1 next_states (actor_network B (actor_target ag) next_states))"
  define y where "y = compute_critic_targets B ag next_states rewards dones"
  define g where "g = discount_rate (hyperparameters ag)"
  have q': "shape q_next = shape rewards" using q by (simp add: q_next_def)
  have y: "y = compute_critic_values_for_current_states ag rewards q_next dones"
    unfolding y_def q_next_def compute_critic_targets_def
      compute_critic_values_for_next_states_def by (simp add: Let_def)
  have e: "y ! i ! j = rewards ! i ! j + g * (q_next ! i ! j) * (1 - dones ! i ! j)"
    unfolding y g_def using q' d i j by (rule entry_current_states)
  have s: "shape y = shape rewards" unfolding y using q' d by (rule shape_current_states)
  have f: "y = tensor_add rewards (tensor_mul (scalar_mul g q_next) (scalar_sub 1 dones))"
    unfolding y g_def compute_critic_values_for_current_states_def ..
  have t: "y ! i ! j = rewards ! i ! j"
    if "dones ! i ! j = 1 \<and> rewards ! i ! j = Fin r \<and> fl r = Fin r
          \<and> g * (q_next ! i ! j) = Fin z" for r z
    using that e by (simp add: f32_one_minus_one f32_times_zero f32_plus_zero)
  have n: "y ! i ! j = NaN"
    if "dones ! i ! j = 1 \<and> g * (q_next ! i ! j) \<in> {PInf, NInf, NaN}"
    using that e by (auto simp add: f32_one_minus_one f32_times_zero f32_plus_NaN)
  from f s e t n show ?thesis
    unfolding Let_def q_next_def [symmetric] y_def [symmetric] g_def [symmetric] by blast
qed

theorem critic_target_formula_witness:
  "shape (critic_network f32_collaborators (critic_target f32_agent)
            (cat_axis1 [[Fin 1]]
               (actor_network f32_collaborators (actor_target f32_agent) [[Fin 1]])))
     = shape [[Fin 5]]
   \<and> shape [[Fin 1]] = shape [[Fin 5]]
   \<and> (0::nat) < length [[Fin 5]] \<and> (0::nat) < length ([[Fin 5]] ! 0)
   \<and> [[Fin 1]] ! 0 ! 0 = (1::float32) \<and> fl 5 = Fin 5
   \<and> discount_rate (hyperparameters f32_agent)
         * (critic_network f32_collaborators (critic_target f32_agent)
              (cat_axis1 [[Fin 1]]
                 (actor_network f32_collaborators (actor_target f32_agent) [[Fin 1]])) ! 0 ! 0)
       = Fin 0
   \<and> compute_critic_targets f32_collaborators f32_agent [[Fin 1]] [[Fin 5]] [[Fin 1]] ! 0 ! 0
       = Fin 5
   \<and> discount_rate (hyperparameters f32_agent)
         * (critic_network diverged_collaborators (critic_target f32_agent)
              (cat_axis1 [[Fin 1]]
                 (actor_network diverged_collaborators (actor_target f32_agent) [[Fin 1]]))
              ! 0 ! 0)
       = PInf
   \<and> compute_critic_targets diverged_collaborators f32_agent [[Fin 1]] [[Fin 5]] [[Fin 1]] ! 0 ! 0
       = NaN"
proof -
  let ?q = "critic_network f32_collaborators (critic_target f32_agent)
            (cat_axis1 [[Fin 1]]
               (actor_network f32_collaborators (actor_target f32_agent) [[Fin 1]]))"
  have q: "shape ?q = shape [[Fin 5]]"
    by (simp add: shape_def f32_collaborators_def cat_axis1_def)
  have d: "shape [[Fin 1]] = shape [[Fin 5]]" by (simp add: shape_def)
  have i: "(0::nat) < length [[Fin 5]]" by simp
  have j: "(0::nat) < length ([[Fin 5]] ! 0)" by simp
  have e: "[[Fin 1]] ! 0 ! 0 = (1::float32)" by (simp add: one_float32_def)
  have r: "[[Fin 5]] ! 0 ! 0 = Fin 5" by simp
  have z: "discount_rate (hyperparameters f32_agent) * (?q ! 0 ! 0) = Fin 0"
    by (simp add: f32_agent_def f32_hyperparameters_def f32_collaborators_def cat_axis1_def
          times_float32_def fl_0)
  have "\<forall>r z. [[Fin 1]] ! 0 ! 0 = (1::float32) \<and> [[Fin 5]] ! 0 ! 0 = Fin r \<and> fl r = Fin r
                 \<and> discount_rate (hyperparameters f32_agent) * (?q ! 0 ! 0) = Fin z
          \<longrightarrow> compute_critic_targets f32_collaborators f32_agent [[Fin 1]] [[Fin 5]] [[Fin 1]]
                 ! 0 ! 0 = [[Fin 5]] ! 0 ! 0"
    using critic_target_formula [OF q d i j] unfolding Let_def by blast
  with e r fl_5 z
  have f: "compute_critic_targets f32_collaborators f32_agent [[Fin 1]] [[Fin 5]] [[Fin 1]] ! 0 ! 0
          = Fin 5"
    by simp
  let ?p = "critic_network diverged_collaborators (critic_target f32_agent)
            (cat_axis1 [[Fin 1]]
               (actor_network diverged_collaborators (actor_target f32_agent) [[Fin 1]]))"
  have q2: "shape ?p = shape [[Fin 5]]"
    by (simp add: shape_def diverged_collaborators_def f32_collaborators_def cat_axis1_def)
  have z2: "discount_rate (hyperparameters f32_agent) * (?p ! 0 ! 0) = PInf"
    by (simp add: f32_agent_def f32_hyperparameters_def diverged_collaborators_def
          f32_collaborators_def cat_axis1_def times_float32_def)
  have "[[Fin 1]] ! 0 ! 0 = (1::float32)
          \<and> discount_rate (hyperparameters f32_agent) * (?p ! 0 ! 0) \<in> {PInf, NInf, NaN}
        \<longrightarrow> compute_critic_targets diverged_collaborators f32_agent [[Fin 1]] [[Fin 5]]
              [[Fin 1]] ! 0 ! 0 = NaN"
    using critic_target_formula [OF q2 d i j] unfolding Let_def by blast
  with e z2
  have n: "compute_critic_targets diverged_collaborators f32_agent [[Fin 1]] [[Fin 5]] [[Fin 1]]
             ! 0 ! 0 = NaN"
    by simp
  from q d i j e fl_5 z f z2 n show ?thesis by blast
qed

text \<open>
  C1 does not hold as stated: with a critic whose value of the next state is \<open>+\<infinity>\<close>, the
  target of a transition with done flag 1 and reward 5 is NaN, not 5.
\<close>

theorem critic_target_nonfinite_counterexample:
  "[[Fin 1]] ! 0 ! 0 = (1::float32)
   \<and> compute_critic_values_for_current_states f32_agent [[Fin 5]] [[PInf]] [[Fin 1]] = [[NaN]]
   \<and> compute_critic_targets diverged_collaborators f32_agent [[Fin 1]] [[Fin 5]] [[Fin 1]]
       = [[NaN]]
   \<and> compute_critic_targets diverged_collaborators f32_agent [[Fin 1]] [[Fin 5]] [[Fin 1]] ! 0 ! 0
       \<noteq> [[Fin 5]] ! 0 ! 0"
proof -
  have a: "[[Fin 1]] ! 0 ! 0 = (1::float32)" by (simp add: one_float32_def)
  have b: "compute_critic_values_for_current_states f32_agent [[Fin 5]] [[PInf]] [[Fin 1]]
             = [[NaN]]"
    by (simp add: compute_critic_values_for_current_states_def tensor_add_def tensor_mul_def
          scalar_mul_def scalar_sub_def f32_agent_def f32_hyperparameters_def
          one_float32_def minus_float32_def fl_0 times_float32_def plus_float32_def)
  have c: "compute_critic_targets diverged_collaborators f32_agent [[Fin 1]] [[Fin 5]] [[Fin 1]]
             = compute_critic_values_for_current_states f32_agent [[Fin 5]] [[PInf]] [[Fin 1]]"
    by (simp add: compute_critic_targets_def compute_critic_values_for_next_states_def
          diverged_collaborators_def f32_collaborators_def cat_axis1_def)
  from a b c show ?thesis by simp
qed

subsection \<open>Soft update\<close>

lemma soft_update_length:
  "length g = length l \<Longrightarrow> length (soft_update_of_target_network l g t) = length l"
  by (simp add: soft_update_of_target_network_def)

lemma soft_update_nth:
  "length g = length l \<Longrightarrow> i < length l \<Longrightarrow>
     soft_update_of_target_network l g t ! i = t * l ! i + (1 - t) * g ! i"
  by (simp add: soft_update_of_target_network_def)

lemma soft_update_funpow_length:
  "length g = length l \<Longrightarrow>
     length (((\<lambda>x. soft_update_of_target_network l x t) ^^ k) g) = length l"
  by (induction k) (simp_all add: soft_update_length)

lemma soft_update_step_diff:
  assumes "t \<le> 1" "length g = length l" "i < length l"
  shows "\<bar>soft_update_of_target_network l g t ! i - l ! i\<bar> = (1 - t) * \<bar>g ! i - l ! i\<bar>"
proof -
  have "soft_update_of_target_network l g t ! i - l ! i = (1 - t) * (g ! i - l ! i)"
    using assms(2,3) by (simp add: soft_update_nth algebra_simps)
  then show ?thesis using assms(1) by (simp add: abs_mult)
qed

lemma soft_update_funpow_diff:
  assumes "t \<le> 1" "length g = length l" "i < length l"
  shows "\<bar>((\<lambda>x. soft_update_of_target_network l x t) ^^ k) g ! i - l ! i\<bar>
           = (1 - t) ^ k * \<bar>g ! i - l ! i\<bar>"
proof (induction k)
  case 0
  show ?case by simp
next
  case (Suc k)
  have len: "length (((\<lambda>x. soft_update_of_target_network l x t) ^^ k) g) = length l"
    using assms(2) by (rule soft_update_funpow_length)
  show ?case
    using soft_update_step_diff [OF assms(1) len assms(3)] Suc by simp
qed

text \<open>
  C5. The soft update replaces each target parameter by \<open>\<tau>\<cdot>\<theta>_local + (1\<minus>\<tau>)\<cdot>\<theta>_target\<close>.
  For \<open>0 < \<tau> \<le> 1\<close> and a local parameter vector that stays the same, one update multiplies
  the distance of every target parameter from its local parameter by \<open>1 \<minus> \<tau>\<close>, \<open>k\<close>
  updates multiply it by \<open>(1 \<minus> \<tau>)\<^sup>k\<close>, and the distance never grows.
\<close>

theorem soft_update_contraction:
  assumes "0 < t" "t \<le> 1" "length g = length l" "i < length l"
  shows "soft_update_of_target_network l g t ! i = t * l ! i + (1 - t) * g ! i
       \<and> \<bar>soft_update_of_target_network l g t ! i - l ! i\<bar> = (1 - t) * \<bar>g ! i - l ! i\<bar>
       \<and> \<bar>soft_update_of_target_network l g t ! i - l ! i\<bar> \<le> \<bar>g ! i - l ! i\<bar>
       \<and> \<bar>((\<lambda>x. soft_update_of_target_network l x t) ^^ k) g ! i - l ! i\<bar>
           = (1 - t) ^ k * \<bar>g ! i - l ! i\<bar>
       \<and> \<bar>((\<lambda>x. soft_update_of_target_network l x t) ^^ Suc k) g ! i - l ! i\<bar>
           \<le> \<bar>((\<lambda>x. soft_update_of_target_network l x t) ^^ k) g ! i - l ! i\<bar>"
proof -
  have a: "soft_update_of_target_network l g t ! i = t * l ! i + (1 - t) * g ! i"
    using assms(3,4) by (rule soft_update_nth)
  have b: "\<bar>soft_update_of_target_network l g t ! i - l ! i\<bar> = (1 - t) * \<bar>g ! i - l ! i\<bar>"
    using assms(2,3,4) by (rule soft_update_step_diff)
  have "(1 - t) * \<bar>g ! i - l ! i\<bar> \<le> 1 * \<bar>g ! i - l ! i\<bar>"
    using assms(1) by (intro mult_right_mono) simp_all
  with b have c: "\<bar>soft_update_of_target_network l g t ! i - l ! i\<bar> \<le> \<bar>g ! i - l ! i\<bar>"
    by simp
  have d: "\<bar>((\<lambda>x. soft_update_of_target_network l x t) ^^ n) g ! i - l ! i\<bar>
           = (1 - t) ^ n * \<bar>g ! i - l ! i\<bar>" for n
    using assms(2,3,4) by (rule soft_update_funpow_diff)
  have "(1 - t) * ((1 - t) ^ k * \<bar>g ! i - l ! i\<bar>) \<le> 1 * ((1 - t) ^ k * \<bar>g ! i - l ! i\<bar>)"
    using assms(1,2) by (intro mult_right_mono) simp_all
  then have e: "\<bar>((\<lambda>x. soft_update_of_target_network l x t) ^^ Suc k) g ! i - l ! i\<bar>
           \<le> \<bar>((\<lambda>x. soft_update_of_target_network l x t) ^^ k) g ! i - l ! i\<bar>"
    unfolding d by (simp add: mult.assoc)
  from a b c d [of k] e show ?thesis by blast
qed

theorem soft_update_contraction_witness:
  "(0::real) < 1 / 4 \<and> (1::real) / 4 \<le> 1 \<and> length [8::real] = length [0::real]
   \<and> (0::nat) < length [0::real]
   \<and> soft_update_of_target_network [0] [8] (1 / 4) ! 0 = 6
   \<and> \<bar>((\<lambda>x. soft_update_of_target_network [0] x (1 / 4)) ^^ 2) [8] ! 0 - [0] ! 0\<bar> = 9 / 2"
proof -
  have a: "(0::real) < 1 / 4" and b: "(1::real) / 4 \<le> 1" by simp_all
  have c: "length [8::real] = length [0::real]" and d: "(0::nat) < length [0::real]" by simp_all
  from soft_update_contraction [OF a b c d, of 2]
  show ?thesis by (simp add: power2_eq_square)
qed

subsection \<open>Actor loss\<close>

lemma sum_list_strict_mono:
  "list_all2 (\<lambda>x y. y < x) xs ys \<Longrightarrow> xs \<noteq> [] \<Longrightarrow> sum_list ys < sum_list (xs :: real list)"
proof (induction rule: list_all2_induct)
  case Nil
  then show ?case by simp
next
  case (Cons x xs y ys)
  show ?case
  proof (cases "xs = []")
    case True
    with Cons show ?thesis by simp
  next
    case False
    with Cons show ?thesis by simp
  qed
qed

lemma list_all2_concat:
  "list_all2 (list_all2 P) a b \<Longrightarrow> list_all2 P (concat a) (concat b)"
  by (induction rule: list_all2_induct) (simp_all add: list_all2_appendI)

lemma scalar_of_nat_real: "scalar_of_nat n = real n"
  by (induction n) simp_all

lemma mean_real: "mean (t :: tensor) = sum_list (concat t) / real (length (concat t))"
  by (simp add: mean_def scalar_of_nat_real sum_list.eq_foldr)

lemma mean_strict_mono:
  fixes a b :: tensor
  assumes "list_all2 (list_all2 (\<lambda>x y. y < x)) a b" "concat a \<noteq> []"
  shows "mean b < mean a"
proof -
  have c: "list_all2 (\<lambda>x y. y < x) (concat a) (concat b)"
    using assms(1) by (rule list_all2_concat)
  then have l: "length (concat b) = length (concat a)" by (simp add: list_all2_lengthD)
  have p: "0 < real (length (concat a))" using assms(2) by simp
  have "sum_list (concat b) < sum_list (concat a)"
    using c assms(2) by (rule sum_list_strict_mono)
  then show ?thesis unfolding mean_real l using p by (simp add: divide_strict_right_mono)
qed

text \<open>
  C4. The actor's loss is \<open>\<minus>mean(critic_local(concat(states, actor_local(states))))\<close>. With
  the critic fixed, if on a non-empty batch the critic's value of the actions of the actor
  with parameters \<open>wa\<close> is higher, entry by entry, than its value of the actions of the actor
  with parameters \<open>wb\<close>, then the loss of the first actor is strictly lower.
\<close>

theorem actor_loss_sign:
  fixes B :: "('e, 'n, 'r, 'o, 'g) collaborators" and ag :: "('e, 'n, 'r, 'o) agent"
  shows "calculate_actor_loss B ag states
           = - mean (critic_network B (critic_local ag)
                       (cat_axis1 states (actor_network B (actor_local ag) states)))
       \<and> (list_all2 (list_all2 (\<lambda>x y. y < x))
             (critic_network B (critic_local ag) (cat_axis1 states (actor_network B wa states)))
             (critic_network B (critic_local ag) (cat_axis1 states (actor_network B wb states)))
           \<and> concat (critic_network B (critic_local ag)
                       (cat_axis1 states (actor_network B wa states))) \<noteq> []
           \<longrightarrow> calculate_actor_loss B (ag\<lparr>actor_local := wa\<rparr>) states
                 < calculate_actor_loss B (ag\<lparr>actor_local := wb\<rparr>) states)"
proof -
  have a: "calculate_actor_loss B ag states
           = - mean (critic_network B (critic_local ag)
                       (cat_axis1 states (actor_network B (actor_local ag) states)))"
    by (simp add: calculate_actor_loss_def Let_def)
  have b: "calculate_actor_loss B (ag\<lparr>actor_local := wa\<rparr>) states
                 < calculate_actor_loss B (ag\<lparr>actor_local := wb\<rparr>) states"
    if "list_all2 (list_all2 (\<lambda>x y. y < x))
             (critic_network B (critic_local ag) (cat_axis1 states (actor_network B wa states)))
             (critic_network B (critic_local ag) (cat_axis1 states (actor_network B wb states)))"
      and "concat (critic_network B (critic_local ag)
                       (cat_axis1 states (actor_network B wa states))) \<noteq> []"
    using mean_strict_mono [OF that] by (simp add: calculate_actor_loss_def Let_def)
  from a b show ?thesis by blast
qed

theorem actor_loss_sign_witness:
  "list_all2 (list_all2 (\<lambda>x y. y < x))
     (critic_network demo_collaborators (critic_local demo_agent)
        (cat_axis1 [[1], [2]] (actor_network demo_collaborators [3] [[1], [2]])))
     (critic_network demo_collaborators (critic_local demo_agent)
        (cat_axis1 [[1], [2]] (actor_network demo_collaborators [0] [[1], [2]])))
   \<and> concat (critic_network demo_collaborators (critic_local demo_agent)
        (cat_axis1 [[1], [2]] (actor_network demo_collaborators [3] [[1], [2]]))) \<noteq> []
   \<and> calculate_actor_loss demo_collaborators (demo_agent\<lparr>actor_local := [3]\<rparr>) [[1], [2]]
       < calculate_actor_loss demo_collaborators (demo_agent\<lparr>actor_local := [0]\<rparr>) [[1], [2]]
   \<and> calculate_actor_loss demo_collaborators demo_agent [[1], [2]] = - 6"
proof -
  have h1: "list_all2 (list_all2 (\<lambda>x y. y < x))
     (critic_network demo_collaborators (critic_local demo_agent)
        (cat_axis1 [[1], [2]] (actor_network demo_collaborators [3] [[1], [2]])))
     (critic_network demo_collaborators (critic_local demo_agent)
        (cat_axis1 [[1], [2]] (actor_network demo_collaborators [0] [[1], [2]])))"
    by (simp add: demo_collaborators_def demo_agent_def cat_axis1_def)
  have h2: "concat (critic_network demo_collaborators (critic_local demo_agent)
        (cat_axis1 [[1], [2]] (actor_network demo_collaborators [3] [[1], [2]]))) \<noteq> []"
    by (simp add: demo_collaborators_def demo_agent_def cat_axis1_def)
  have v: "- mean (critic_network demo_collaborators (critic_local demo_agent)
                       (cat_axis1 [[1], [2]]
                          (actor_network demo_collaborators (actor_local demo_agent) [[1], [2]])))
            = - 6"
    by (simp add: demo_collaborators_def demo_agent_def cat_axis1_def mean_real)
  from actor_loss_sign [of demo_collaborators demo_agent "[[1], [2]]" "[3]" "[0]"] h1 h2 v
  show ?thesis by simp
qed

subsection \<open>Construction\<close>

text \<open>
  C9. \<^verbatim>\<open>__init__\<close> creates each target network by a call of \<^verbatim>\<open>create_NN\<close> of its own, with
  the arguments of the call that made its local network, and then applies
  \<^verbatim>\<open>copy_model_over\<close> to the local and the target network, in this order, for the critic
  pair and for the actor pair. When \<^verbatim>\<open>copy_model_over\<close> gives its second argument the
  parameters of its first, both targets start with the parameters of their local
  networks. No call of a learning step has been made.
\<close>

theorem init_targets_equal_locals:
  assumes copy: "\<forall>from_model to_model. copy_model_over B from_model to_model = from_model"
  shows "(let ag = DDPG_init B hp seed state_size action_size base;
              (lc, s1) = create_NN B seed (state_size + action_size) 1 ''Critic'';
              (tc, s2) = create_NN B s1 (state_size + action_size) 1 ''Critic'';
              (la, s3) = create_NN B s2 state_size action_size ''Actor'';
              (ta, s4) = create_NN B s3 state_size action_size ''Actor''
          in critic_local ag = lc
             \<and> critic_target ag = copy_model_over B lc tc
             \<and> actor_local ag = la
             \<and> actor_target ag = copy_model_over B la ta
             \<and> critic_target ag = critic_local ag
             \<and> actor_target ag = actor_local ag
             \<and> calls ag = calls base)"
proof -
  have a: "(let ag = DDPG_init B hp seed state_size action_size base;
              (lc, s1) = create_NN B seed (state_size + action_size) 1 ''Critic'';
              (tc, s2) = create_NN B s1 (state_size + action_size) 1 ''Critic'';
              (la, s3) = create_NN B s2 state_size action_size ''Actor'';
              (ta, s4) = create_NN B s3 state_size action_size ''Actor''
          in critic_local ag = lc
             \<and> critic_target ag = copy_model_over B lc tc
             \<and> actor_local ag = la
             \<and> actor_target ag = copy_model_over B la ta
             \<and> calls ag = calls base)"
    by (simp add: DDPG_init_def Let_def split_def)
  then show ?thesis
    unfolding Let_def split_def using copy by metis
qed

theorem init_targets_equal_locals_witness:
  "(\<forall>from_model to_model. copy_model_over demo_collaborators from_model to_model = from_model)
   \<and> fst (create_NN demo_collaborators 0 2 1 ''Critic'') = [0, 0]
   \<and> fst (create_NN demo_collaborators 1 2 1 ''Critic'') = [1, 1]
   \<and> critic_local (DDPG_init demo_collaborators demo_hyperparameters 0 1 1 demo_agent) = [0, 0]
   \<and> critic_target (DDPG_init demo_collaborators demo_hyperparameters 0 1 1 demo_agent) = [0, 0]
   \<and> actor_local (DDPG_init demo_collaborators demo_hyperparameters 0 1 1 demo_agent) = [2]
   \<and> actor_target (DDPG_init demo_collaborators demo_hyperparameters 0 1 1 demo_agent) = [2]"
proof -
  have c: "\<forall>from_model to_model.
             copy_model_over demo_collaborators from_model to_model = from_model"
    by (simp add: demo_collaborators_def)
  have v: "create_NN demo_collaborators 0 (1 + 1) 1 ''Critic'' = ([0, 0], 1)"
    "create_NN demo_collaborators 1 (1 + 1) 1 ''Critic'' = ([1, 1], 2)"
    "create_NN demo_collaborators 2 1 1 ''Actor'' = ([2], 3)"
    "create_NN demo_collaborators 3 1 1 ''Actor'' = ([3], 4)"
    by (simp_all add: demo_collaborators_def numeral_2_eq_2 numeral_3_eq_3)
  have w: "fst (create_NN demo_collaborators 0 2 1 ''Critic'') = [0, 0]"
    "fst (create_NN demo_collaborators 1 2 1 ''Critic'') = [1, 1]"
    by (simp_all add: demo_collaborators_def numeral_2_eq_2)
  note th = init_targets_equal_locals [OF c, of demo_hyperparameters 0 1 1 demo_agent]
  from th [unfolded Let_def v split_conv]
  have "critic_local (DDPG_init demo_collaborators demo_hyperparameters 0 1 1 demo_agent) = [0, 0]
   \<and> critic_target (DDPG_init demo_collaborators demo_hyperparameters 0 1 1 demo_agent)
       = critic_local (DDPG_init demo_collaborators demo_hyperparameters 0 1 1 demo_agent)
   \<and> actor_local (DDPG_init demo_collaborators demo_hyperparameters 0 1 1 demo_agent) = [2]
   \<and> actor_target (DDPG_init demo_collaborators demo_hyperparameters 0 1 1 demo_agent)
       = actor_local (DDPG_init demo_collaborators demo_hyperparameters 0 1 1 demo_agent)"
    by blast
  with c w show ?thesis by simp
qed

subsection \<open>The learning steps\<close>

lemma critic_learn_critic_local:
  "critic_local (critic_learn B ag s a r ns d) =
     snd (take_optimisation_step B (critic_optimizer ag)
            (snd (critic_grad_fn B ag s a (compute_critic_targets B ag ns r d)))
            (gradient_clipping_norm (Critic (hyperparameters ag))) (critic_local ag))"
  by (simp add: critic_learn_def Let_def split_def log_call_def)

lemma critic_learn_critic_target:
  "critic_target (critic_learn B ag s a r ns d) =
     soft_update_of_target_network (critic_local (critic_learn B ag s a r ns d))
       (critic_target ag) (tau (Critic (hyperparameters ag)))"
  by (simp add: critic_learn_def Let_def split_def log_call_def)

lemma critic_learn_critic_optimizer:
  "critic_optimizer (critic_learn B ag s a r ns d) =
     fst (take_optimisation_step B (critic_optimizer ag)
            (snd (critic_grad_fn B ag s a (compute_critic_targets B ag ns r d)))
            (gradient_clipping_norm (Critic (hyperparameters ag))) (critic_local ag))"
  by (simp add: critic_learn_def Let_def split_def log_call_def)

lemma critic_learn_unchanged:
  "actor_local (critic_learn B ag s a r ns d) = actor_local ag"
  "actor_target (critic_learn B ag s a r ns d) = actor_target ag"
  "actor_optimizer (critic_learn B ag s a r ns d) = actor_optimizer ag"
  "hyperparameters (critic_learn B ag s a r ns d) = hyperparameters ag"
  "memory (critic_learn B ag s a r ns d) = memory ag"
  "done_flag (critic_learn B ag s a r ns d) = done_flag ag"
  by (simp_all add: critic_learn_def Let_def split_def log_call_def)

lemma actor_learn_calls:
  "calls (actor_learn B ag s) =
     calls ag
     @ (if done_flag ag then [Update_Learning_Rate (learning_rate (Actor (hyperparameters ag)))]
        else [])
     @ [Actor_Grad s, Optimisation_Step Actor_Net, Soft_Update Actor_Net]"
  by (simp add: actor_learn_def Let_def split_def log_call_def)

lemma actor_learn_actor_local:
  "actor_local (actor_learn B ag s) =
     snd (take_optimisation_step B
            (if done_flag ag
             then update_learning_rate (learning_rate (Actor (hyperparameters ag)))
                    (actor_optimizer ag)
             else actor_optimizer ag)
            (snd (actor_grad_fn B ag s))
            (gradient_clipping_norm (Actor (hyperparameters ag))) (actor_local ag))"
  by (simp add: actor_learn_def Let_def split_def log_call_def actor_grad_fn_def
        calculate_actor_loss_def)

lemma actor_learn_actor_optimizer:
  "actor_optimizer (actor_learn B ag s) =
     fst (take_optimisation_step B
            (if done_flag ag
             then update_learning_rate (learning_rate (Actor (hyperparameters ag)))
                    (actor_optimizer ag)
             else actor_optimizer ag)
            (snd (actor_grad_fn B ag s))
            (gradient_clipping_norm (Actor (hyperparameters ag))) (actor_local ag))"
  by (simp add: actor_learn_def Let_def split_def log_call_def actor_grad_fn_def
        calculate_actor_loss_def)

lemma actor_learn_actor_target:
  "actor_target (actor_learn B ag s) =
     soft_update_of_target_network (actor_local (actor_learn B ag s))
       (actor_target ag) (tau (Actor (hyperparameters ag)))"
  by (simp add: actor_learn_def Let_def split_def log_call_def)

lemma actor_learn_unchanged:
  "critic_local (actor_learn B ag s) = critic_local ag"
  "critic_target (actor_learn B ag s) = critic_target ag"
  "critic_optimizer (actor_learn B ag s) = critic_optimizer ag"
  "hyperparameters (actor_learn B ag s) = hyperparameters ag"
  "memory (actor_learn B ag s) = memory ag"
  "done_flag (actor_learn B ag s) = done_flag ag"
  by (simp_all add: actor_learn_def Let_def split_def log_call_def)

lemma sample_experiences_Inr:
  assumes "sample_experiences B ag = Inr (b, ag1)"
  shows "b = decompose (fst (random_sample B (rng (memory ag)) (items (memory ag))
                               (rb_batch_size (memory ag))))"
    and "ag1 = log_call (Sample_Experiences b)
                 (ag\<lparr>memory := (memory ag)\<lparr>rng := snd (random_sample B (rng (memory ag))
                                  (items (memory ag)) (rb_batch_size (memory ag)))\<rparr>\<rparr>)"
    and "rb_batch_size (memory ag) \<le> int (length (items (memory ag)))"
  using assms
  by (auto simp add: sample_experiences_def sample_def Let_def split_def
        split: if_splits sum.splits)

lemma sample_experiences_ok:
  assumes "rb_batch_size (memory ag) \<le> int (length (items (memory ag)))"
  shows "\<exists>b ag1. sample_experiences B ag = Inr (b, ag1)"
  using assms by (simp add: sample_experiences_def sample_def Let_def split_def)

lemma sample_experiences_Inl:
  "sample_experiences B ag = Inl e \<Longrightarrow>
     e = InsufficientDataError \<and> int (length (items (memory ag))) < rb_batch_size (memory ag)"
  by (auto simp add: sample_experiences_def sample_def Let_def split_def
        split: if_splits sum.splits)

lemma compute_critic_targets_cong:
  "actor_target ag1 = actor_target ag \<Longrightarrow> critic_target ag1 = critic_target ag \<Longrightarrow>
   hyperparameters ag1 = hyperparameters ag \<Longrightarrow>
   compute_critic_targets B ag1 ns r d = compute_critic_targets B ag ns r d"
  by (simp add: compute_critic_targets_def compute_critic_values_for_next_states_def
        compute_critic_values_for_current_states_def)

lemma compute_critic_targets_unfold:
  "compute_critic_targets B ag ns r d =
     tensor_add r
       (tensor_mul
          (scalar_mul (discount_rate (hyperparameters ag))
             (critic_network B (critic_target ag)
                (cat_axis1 ns (actor_network B (actor_target ag) ns))))
          (scalar_sub 1 d))"
  by (simp add: compute_critic_targets_def compute_critic_values_for_next_states_def
        compute_critic_values_for_current_states_def)

lemma critic_grad_fn_unfold:
  "critic_grad_fn B ag s a y =
     value_and_grad B (\<lambda>w. mse_loss (critic_network B w (cat_axis1 s a)) y) (critic_local ag)"
  by (simp add: critic_grad_fn_def compute_loss_def compute_expected_critic_values_def)

lemma actor_grad_fn_unfold:
  "actor_grad_fn B ag s =
     value_and_grad B
       (\<lambda>w. - mean (critic_network B (critic_local ag) (cat_axis1 s (actor_network B w s))))
       (actor_local ag)"
  by (simp add: actor_grad_fn_def calculate_actor_loss_def)

lemma sample_experiences_fields:
  assumes "sample_experiences B ag = Inr (b, ag1)"
  shows "calls ag1 = calls ag @ [Sample_Experiences b]"
    and "critic_local ag1 = critic_local ag"
    and "critic_target ag1 = critic_target ag"
    and "actor_local ag1 = actor_local ag"
    and "actor_target ag1 = actor_target ag"
    and "critic_optimizer ag1 = critic_optimizer ag"
    and "actor_optimizer ag1 = actor_optimizer ag"
    and "hyperparameters ag1 = hyperparameters ag"
    and "done_flag ag1 = done_flag ag"
    and "items (memory ag1) = items (memory ag)"
    and "rb_batch_size (memory ag1) = rb_batch_size (memory ag)"
    and "rng (memory ag1) = snd (random_sample B (rng (memory ag)) (items (memory ag))
                                   (rb_batch_size (memory ag)))"
  using sample_experiences_Inr(2) [OF assms] by (simp_all add: log_call_def)

lemma learn_once_Inr:
  assumes "sample_experiences B ag = Inr (b, ag1)"
  shows "learn_once B ag =
           Inr (actor_learn B
                  (critic_learn B ag1 (b_states b) (b_actions b) (b_rewards b)
                     (b_next_states b) (b_dones b))
                  (b_states b))"
  by (simp add: learn_once_def assms Let_def)

lemma learn_once_Inl:
  "learn_once B ag = Inl e \<Longrightarrow> sample_experiences B ag = Inl e"
  by (simp add: learn_once_def Let_def split: sum.splits prod.splits)

lemma learn_once_calls:
  assumes "sample_experiences B ag = Inr (b, ag1)" and "learn_once B ag = Inr ag'"
  shows "calls ag' = calls ag
           @ learning_block_events b
               (compute_critic_targets B ag (b_next_states b) (b_rewards b) (b_dones b))
               (done_flag ag) (learning_rate (Actor (hyperparameters ag)))"
proof -
  note f = sample_experiences_fields [OF assms(1)]
  have c: "compute_critic_targets B ag1 (b_next_states b) (b_rewards b) (b_dones b)
         = compute_critic_targets B ag (b_next_states b) (b_rewards b) (b_dones b)"
    using f(5) f(3) f(8) by (rule compute_critic_targets_cong)
  have "ag' = actor_learn B
                  (critic_learn B ag1 (b_states b) (b_actions b) (b_rewards b)
                     (b_next_states b) (b_dones b))
                  (b_states b)"
    using learn_once_Inr [OF assms(1)] assms(2) by simp
  then show ?thesis
    by (simp add: actor_learn_calls critic_learn_calls critic_learn_unchanged c f(1) f(8) f(9)
          learning_block_events_def)
qed

lemma learn_once_preserves:
  assumes "learn_once B ag = Inr ag'"
  shows "hyperparameters ag' = hyperparameters ag"
    and "items (memory ag') = items (memory ag)"
    and "rb_batch_size (memory ag') = rb_batch_size (memory ag)"
    and "done_flag ag' = done_flag ag"
    and "rng (memory ag') = snd (random_sample B (rng (memory ag)) (items (memory ag))
                                   (rb_batch_size (memory ag)))"
proof -
  obtain b ag1 where s: "sample_experiences B ag = Inr (b, ag1)"
    using assms by (auto simp add: learn_once_def split: sum.splits)
  note f = sample_experiences_fields [OF s]
  have e: "ag' = actor_learn B
                  (critic_learn B ag1 (b_states b) (b_actions b) (b_rewards b)
                     (b_next_states b) (b_dones b))
                  (b_states b)"
    using learn_once_Inr [OF s] assms by simp
  show "hyperparameters ag' = hyperparameters ag"
    by (simp add: e actor_learn_unchanged critic_learn_unchanged f(8))
  show "items (memory ag') = items (memory ag)"
    by (simp add: e actor_learn_unchanged critic_learn_unchanged f(10))
  show "rb_batch_size (memory ag') = rb_batch_size (memory ag)"
    by (simp add: e actor_learn_unchanged critic_learn_unchanged f(11))
  show "done_flag ag' = done_flag ag"
    by (simp add: e actor_learn_unchanged critic_learn_unchanged f(9))
  show "rng (memory ag') = snd (random_sample B (rng (memory ag)) (items (memory ag))
                                   (rb_batch_size (memory ag)))"
    by (simp add: e actor_learn_unchanged critic_learn_unchanged f(12))
qed

lemma learning_session_preserves:
  "learning_session B k ag = Inr ag' \<Longrightarrow>
     hyperparameters ag' = hyperparameters ag
     \<and> items (memory ag') = items (memory ag)
     \<and> rb_batch_size (memory ag') = rb_batch_size (memory ag)
     \<and> done_flag ag' = done_flag ag"
proof (induction k arbitrary: ag)
  case 0
  then show ?case by simp
next
  case (Suc k)
  from Suc.prems obtain ag1 where l: "learn_once B ag = Inr ag1"
    and r: "learning_session B k ag1 = Inr ag'"
    by (auto split: sum.splits)
  from Suc.IH [OF r] learn_once_preserves [OF l] show ?case by simp
qed

lemma learning_session_Inl:
  "learning_session B k ag = Inl e \<Longrightarrow> e = InsufficientDataError"
proof (induction k arbitrary: ag)
  case 0
  then show ?case by simp
next
  case (Suc k)
  show ?case
  proof (cases "learn_once B ag")
    case (Inl e')
    with Suc.prems have "e' = e" by simp
    with Inl sample_experiences_Inl [OF learn_once_Inl] show ?thesis by blast
  next
    case (Inr ag1)
    with Suc.prems have "learning_session B k ag1 = Inl e" by simp
    then show ?thesis by (rule Suc.IH)
  qed
qed

lemma learning_session_trace:
  assumes "rb_batch_size (memory ag) \<le> int (length (items (memory ag)))"
  shows "\<exists>ag' ys. learning_session B k ag = Inr ag' \<and> length ys = k
           \<and> calls ag' = calls ag
               @ concat (map2 (\<lambda>b y. learning_block_events b y (done_flag ag)
                                       (learning_rate (Actor (hyperparameters ag))))
                           (draws B (rng (memory ag)) (items (memory ag))
                              (rb_batch_size (memory ag)) k)
                           ys)"
  using assms
proof (induction k arbitrary: ag)
  case 0
  show ?case by simp
next
  case (Suc k)
  obtain b ag0 where s: "sample_experiences B ag = Inr (b, ag0)"
    using sample_experiences_ok [OF Suc.prems] by blast
  obtain ag1 where l: "learn_once B ag = Inr ag1"
    using learn_once_Inr [OF s] by simp
  note p = learn_once_preserves [OF l]
  have "rb_batch_size (memory ag1) \<le> int (length (items (memory ag1)))"
    using Suc.prems p by simp
  from Suc.IH [OF this] obtain ag' ys where
    r: "learning_session B k ag1 = Inr ag'" and n: "length ys = k"
    and c: "calls ag' = calls ag1
               @ concat (map2 (\<lambda>b y. learning_block_events b y (done_flag ag1)
                                       (learning_rate (Actor (hyperparameters ag1))))
                           (draws B (rng (memory ag1)) (items (memory ag1))
                              (rb_batch_size (memory ag1)) k)
                           ys)"
    by blast
  let ?y = "compute_critic_targets B ag (b_next_states b) (b_rewards b) (b_dones b)"
  have b: "b = decompose (fst (random_sample B (rng (memory ag)) (items (memory ag))
                               (rb_batch_size (memory ag))))"
    using s by (rule sample_experiences_Inr(1))
  have "learning_session B (Suc k) ag = Inr ag'" using l r by simp
  moreover have "length (?y # ys) = Suc k" using n by simp
  moreover have "calls ag' = calls ag
               @ concat (map2 (\<lambda>b y. learning_block_events b y (done_flag ag)
                                       (learning_rate (Actor (hyperparameters ag))))
                           (draws B (rng (memory ag)) (items (memory ag))
                              (rb_batch_size (memory ag)) (Suc k))
                           (?y # ys))"
    using c learn_once_calls [OF s l] p b by (simp add: split_def Let_def)
  ultimately show ?case by blast
qed

lemma length_draws: "length (draws B r xs m k) = k"
  by (induction k arbitrary: r) (simp_all add: split_def Let_def)

lemma count_samples_blocks:
  "length bs = length ys \<Longrightarrow>
   length (filter is_sample (concat (map2 (\<lambda>b y. learning_block_events b y d lr) bs ys)))
     = length bs
   \<and> length (filter is_critic_grad (concat (map2 (\<lambda>b y. learning_block_events b y d lr) bs ys)))
     = length bs
   \<and> length (filter is_actor_grad (concat (map2 (\<lambda>b y. learning_block_events b y d lr) bs ys)))
     = length bs"
  by (induction bs ys rule: list_induct2) (simp_all add: learning_block_events_def)

subsection \<open>An iteration of the control loop\<close>

lemma pick_action_Inr:
  "pick_action B ag = Inr (a, ag0) \<Longrightarrow>
     ag0 = ag\<lparr>exploration_strategy :=
                snd (perturb_action_for_exploration_purposes B (exploration_strategy ag)
                       (actor_network B (actor_local ag) [state ag]))\<rparr>"
  by (auto simp add: pick_action_def Let_def split_def split: list.splits)

lemma pick_action_Inl: "pick_action B ag = Inl e \<Longrightarrow> e = ValueError"
  by (auto simp add: pick_action_def Let_def split_def split: list.splits)

lemma conduct_action_fields:
  "calls (conduct_action B a ag) = calls ag @ [Conduct_Action a]"
  "hyperparameters (conduct_action B a ag) = hyperparameters ag"
  "memory (conduct_action B a ag) = memory ag"
  "global_step_number (conduct_action B a ag) = global_step_number ag"
  by (simp_all add: conduct_action_def Let_def split_def log_call_def)

lemma save_experience_fields:
  "calls (save_experience ag) = calls ag @ [Save_Experience]"
  "hyperparameters (save_experience ag) = hyperparameters ag"
  "rb_batch_size (memory (save_experience ag)) = rb_batch_size (memory ag)"
  by (simp_all add: save_experience_def add_experience_def Let_def log_call_def)

lemma time_to_learn_Inl:
  "time_for_critic_and_actor_to_learn ag = Inl e \<Longrightarrow> e = ZeroDivisionError"
  by (simp add: time_for_critic_and_actor_to_learn_def split: if_splits)


lemma time_to_learn_True:
  "time_for_critic_and_actor_to_learn ag = Inr True \<Longrightarrow>
     batch_size (hyperparameters ag) \<le> int (length (items (memory ag)))"
  by (simp add: time_for_critic_and_actor_to_learn_def enough_experiences_to_learn_from_def
        split: if_splits)

lemma step_iteration_pick_fail:
  "pick_action B ag = Inl e \<Longrightarrow> step_iteration B ag = Inl e"
  by (simp add: step_iteration_def)

lemma step_iteration_time_fail:
  "pick_action B ag = Inr (a, ag0) \<Longrightarrow>
   time_for_critic_and_actor_to_learn (conduct_action B a (ag0\<lparr>action := a\<rparr>)) = Inl e \<Longrightarrow>
   step_iteration B ag = Inl e"
  by (simp add: step_iteration_def Let_def)

lemma step_iteration_learn:
  "pick_action B ag = Inr (a, ag0) \<Longrightarrow>
   time_for_critic_and_actor_to_learn (conduct_action B a (ag0\<lparr>action := a\<rparr>)) = Inr True \<Longrightarrow>
   step_iteration B ag =
     (case learning_session B
             (nat (learning_updates_per_learning_session
                     (hyperparameters (conduct_action B a (ag0\<lparr>action := a\<rparr>)))))
             (conduct_action B a (ag0\<lparr>action := a\<rparr>)) of
        Inl e \<Rightarrow> Inl e
      | Inr ag3 \<Rightarrow>
          Inr ((save_experience ag3)
                 \<lparr>state := next_state (save_experience ag3),
                  global_step_number := global_step_number (save_experience ag3) + 1\<rparr>))"
  by (simp add: step_iteration_def Let_def split: sum.splits)

lemma step_iteration_skip:
  "pick_action B ag = Inr (a, ag0) \<Longrightarrow>
   time_for_critic_and_actor_to_learn (conduct_action B a (ag0\<lparr>action := a\<rparr>)) = Inr False \<Longrightarrow>
   step_iteration B ag =
     Inr ((save_experience (conduct_action B a (ag0\<lparr>action := a\<rparr>)))
            \<lparr>state := next_state (save_experience (conduct_action B a (ag0\<lparr>action := a\<rparr>))),
             global_step_number :=
               global_step_number (save_experience (conduct_action B a (ag0\<lparr>action := a\<rparr>))) + 1\<rparr>)"
  by (simp add: step_iteration_def Let_def)

lemma after_acting_fields:
  assumes "pick_action B ag = Inr (a, ag0)"
  shows "calls (conduct_action B a (ag0\<lparr>action := a\<rparr>)) = calls ag @ [Conduct_Action a]"
    and "hyperparameters (conduct_action B a (ag0\<lparr>action := a\<rparr>)) = hyperparameters ag"
    and "memory (conduct_action B a (ag0\<lparr>action := a\<rparr>)) = memory ag"
    and "global_step_number (conduct_action B a (ag0\<lparr>action := a\<rparr>)) = global_step_number ag"
  using pick_action_Inr [OF assms] by (simp_all add: conduct_action_fields)

text \<open>An iteration never ends in \<open>InsufficientDataError\<close>, and keeps the invariant.\<close>

lemma step_iteration_safe:
  assumes inv: "rb_batch_size (memory ag) = batch_size (hyperparameters ag)"
  shows "step_iteration B ag \<noteq> Inl InsufficientDataError"
proof (cases "pick_action B ag")
  case (Inl e)
  with pick_action_Inl [OF Inl] step_iteration_pick_fail [OF Inl] show ?thesis by simp
next
  case (Inr p)
  obtain a ag0 where p: "p = (a, ag0)" by (cases p)
  note pk = Inr [unfolded p]
  note f = after_acting_fields [OF pk]
  let ?ag2 = "conduct_action B a (ag0\<lparr>action := a\<rparr>)"
  show ?thesis
  proof (cases "time_for_critic_and_actor_to_learn ?ag2")
    case (Inl e)
    with time_to_learn_Inl [OF Inl] step_iteration_time_fail [OF pk Inl] show ?thesis by simp
  next
    case t: (Inr t)
    show ?thesis
    proof (cases t)
      case False
      with step_iteration_skip [OF pk] t show ?thesis by simp
    next
      case True
      with t have tt: "time_for_critic_and_actor_to_learn ?ag2 = Inr True" by simp
      have "rb_batch_size (memory ?ag2) \<le> int (length (items (memory ?ag2)))"
        using time_to_learn_True [OF tt] inv f by simp
      from learning_session_trace [OF this] obtain ag3 where
        "learning_session B
           (nat (learning_updates_per_learning_session (hyperparameters ?ag2))) ?ag2 = Inr ag3"
        by blast
      with step_iteration_learn [OF pk tt] show ?thesis by simp
    qed
  qed
qed

lemma step_iteration_preserves:
  assumes "step_iteration B ag = Inr ag'"
  shows "hyperparameters ag' = hyperparameters ag
       \<and> rb_batch_size (memory ag') = rb_batch_size (memory ag)"
proof (cases "pick_action B ag")
  case (Inl e)
  with step_iteration_pick_fail [OF Inl] assms show ?thesis by simp
next
  case (Inr p)
  obtain a ag0 where p: "p = (a, ag0)" by (cases p)
  note pk = Inr [unfolded p]
  note f = after_acting_fields [OF pk]
  let ?ag2 = "conduct_action B a (ag0\<lparr>action := a\<rparr>)"
  show ?thesis
  proof (cases "time_for_critic_and_actor_to_learn ?ag2")
    case (Inl e)
    with step_iteration_time_fail [OF pk Inl] assms show ?thesis by simp
  next
    case t: (Inr t)
    show ?thesis
    proof (cases t)
      case False
      with step_iteration_skip [OF pk] t assms have
        "ag' = (save_experience ?ag2)
            \<lparr>state := next_state (save_experience ?ag2),
             global_step_number := global_step_number (save_experience ?ag2) + 1\<rparr>"
        by simp
      then show ?thesis using f by (simp add: save_experience_fields)
    next
      case True
      with t have tt: "time_for_critic_and_actor_to_learn ?ag2 = Inr True" by simp
      show ?thesis
      proof (cases "learning_session B
           (nat (learning_updates_per_learning_session (hyperparameters ?ag2))) ?ag2")
        case (Inl e)
        with step_iteration_learn [OF pk tt] assms show ?thesis by simp
      next
        case (Inr ag3)
        with step_iteration_learn [OF pk tt] assms have
          "ag' = (save_experience ag3)
            \<lparr>state := next_state (save_experience ag3),
             global_step_number := global_step_number (save_experience ag3) + 1\<rparr>"
          by simp
        then show ?thesis
          using f learning_session_preserves [OF Inr] by (simp add: save_experience_fields)
      qed
    qed
  qed
qed

lemma step_loop_safe:
  fixes B :: "('a, 'b, 'c, 'd, 'e, 'f::{zero,one,plus,minus,uminus,times,inverse}) collaborators_over"
  assumes run: "step_loop B ag = Some y"
    and inv: "rb_batch_size (memory ag) = batch_size (hyperparameters ag)"
  shows "y \<noteq> Inl InsufficientDataError"
proof -
  have "rb_batch_size (memory ag) = batch_size (hyperparameters ag) \<longrightarrow>
          y \<noteq> Inl InsufficientDataError"
  proof (rule step_loop.raw_induct
      [where P = "\<lambda>B ag y. rb_batch_size (memory ag) = batch_size (hyperparameters ag) \<longrightarrow>
                            y \<noteq> Inl InsufficientDataError", OF _ run])
    fix f and C :: "('a, 'b, 'c, 'd, 'e, 'f::{zero,one,plus,minus,uminus,times,inverse}) collaborators_over"
      and s :: "('a, 'b, 'c, 'd, 'f) agent_over" and z
    assume IH: "\<And>C s z. f C s = Some z \<Longrightarrow>
                  rb_batch_size (memory s) = batch_size (hyperparameters s) \<longrightarrow>
                  z \<noteq> Inl InsufficientDataError"
      and body: "(if done_flag s then Some (Inr s)
                  else case step_iteration C s of Inl e \<Rightarrow> Some (Inl e)
                       | Inr ag' \<Rightarrow> f C ag') = Some z"
    show "rb_batch_size (memory s) = batch_size (hyperparameters s) \<longrightarrow>
            z \<noteq> Inl InsufficientDataError"
    proof
      assume i: "rb_batch_size (memory s) = batch_size (hyperparameters s)"
      show "z \<noteq> Inl InsufficientDataError"
      proof (cases "done_flag s")
        case True
        with body show ?thesis by auto
      next
        case False
        show ?thesis
        proof (cases "step_iteration C s")
          case (Inl e)
          with False body step_iteration_safe [OF i, of C] show ?thesis by auto
        next
          case (Inr s')
          with False body have "f C s' = Some z" by simp
          from IH [OF this] step_iteration_preserves [OF Inr] i show ?thesis by simp
        qed
      qed
    qed
  qed
  with inv show ?thesis by simp
qed

lemma step_iteration_trace:
  assumes inv: "rb_batch_size (memory ag) = batch_size (hyperparameters ag)"
    and pick: "pick_action B ag = Inr (a, ag0)"
    and t: "time_for_critic_and_actor_to_learn (conduct_action B a (ag0\<lparr>action := a\<rparr>)) = Inr t"
    and k: "k = (if t then nat (learning_updates_per_learning_session (hyperparameters ag)) else 0)"
  shows "\<exists>ag' ys. step_iteration B ag = Inr ag' \<and> length ys = k
           \<and> calls ag' = calls ag @ [Conduct_Action a]
               @ concat (map2 (\<lambda>b y. learning_block_events b y
                                       (done_flag (conduct_action B a (ag0\<lparr>action := a\<rparr>)))
                                       (learning_rate (Actor (hyperparameters ag))))
                           (draws B (rng (memory ag)) (items (memory ag))
                              (batch_size (hyperparameters ag)) k)
                           ys)
               @ [Save_Experience]"
proof -
  let ?ag2 = "conduct_action B a (ag0\<lparr>action := a\<rparr>)"
  note f = after_acting_fields [OF pick]
  show ?thesis
  proof (cases t)
    case False
    with t have tf: "time_for_critic_and_actor_to_learn ?ag2 = Inr False" by simp
    have "calls ((save_experience ?ag2)
            \<lparr>state := next_state (save_experience ?ag2),
             global_step_number := global_step_number (save_experience ?ag2) + 1\<rparr>)
          = calls ag @ [Conduct_Action a] @ [Save_Experience]"
      using f by (simp add: save_experience_fields)
    with step_iteration_skip [OF pick tf] False k show ?thesis by simp
  next
    case True
    with t have tt: "time_for_critic_and_actor_to_learn ?ag2 = Inr True" by simp
    have e: "rb_batch_size (memory ?ag2) \<le> int (length (items (memory ?ag2)))"
      using time_to_learn_True [OF tt] inv f by simp
    from learning_session_trace [OF e, of B k] obtain ag3 ys where
      s: "learning_session B k ?ag2 = Inr ag3" and n: "length ys = k"
      and c: "calls ag3 = calls ?ag2
               @ concat (map2 (\<lambda>b y. learning_block_events b y (done_flag ?ag2)
                                       (learning_rate (Actor (hyperparameters ?ag2))))
                           (draws B (rng (memory ?ag2)) (items (memory ?ag2))
                              (rb_batch_size (memory ?ag2)) k)
                           ys)"
      by blast
    have k': "nat (learning_updates_per_learning_session (hyperparameters ?ag2)) = k"
      using k True f by simp
    have r: "step_iteration B ag =
               Inr ((save_experience ag3)
                      \<lparr>state := next_state (save_experience ag3),
                       global_step_number := global_step_number (save_experience ag3) + 1\<rparr>)"
      using step_iteration_learn [OF pick tt] s k' by simp
    have "calls ((save_experience ag3)
                      \<lparr>state := next_state (save_experience ag3),
                       global_step_number := global_step_number (save_experience ag3) + 1\<rparr>)
          = calls ag @ [Conduct_Action a]
               @ concat (map2 (\<lambda>b y. learning_block_events b y (done_flag ?ag2)
                                       (learning_rate (Actor (hyperparameters ag))))
                           (draws B (rng (memory ag)) (items (memory ag))
                              (batch_size (hyperparameters ag)) k)
                           ys)
               @ [Save_Experience]"
      using c f inv by (simp add: save_experience_fields)
    with r n show ?thesis by blast
  qed
qed

lemma count_in_iteration:
  assumes "length ys = k"
    and "cs = pre @ [Conduct_Action a]
               @ concat (map2 (\<lambda>b y. learning_block_events b y d lr) (draws B r xs m k) ys)
               @ [Save_Experience]"
  shows "length (filter is_sample cs) = length (filter is_sample pre) + k"
    and "length (filter is_critic_grad cs) = length (filter is_critic_grad pre) + k"
    and "length (filter is_actor_grad cs) = length (filter is_actor_grad pre) + k"
proof -
  have l: "length (draws B r xs m k) = length ys" using assms(1) by (simp add: length_draws)
  note c = count_samples_blocks [OF l, of d lr]
  show "length (filter is_sample cs) = length (filter is_sample pre) + k"
    using c assms(1) l by (simp add: assms(2))
  show "length (filter is_critic_grad cs) = length (filter is_critic_grad pre) + k"
    using c assms(1) l by (simp add: assms(2))
  show "length (filter is_actor_grad cs) = length (filter is_actor_grad pre) + k"
    using c assms(1) l by (simp add: assms(2))
qed

lemma demo_sample:
  "sample_experiences demo_collaborators demo_agent = Inr (demo_batch, demo_sampled)"
  by (simp add: sample_experiences_def sample_def demo_collaborators_def demo_agent_def
        demo_memory_def demo_batch_def demo_sampled_def decompose_def log_call_def)

lemma demo_pick:
  "pick_action demo_collaborators demo_agent = Inr ([6], demo_agent\<lparr>exploration_strategy := ()\<rparr>)"
  by (simp add: pick_action_def demo_collaborators_def demo_agent_def)

lemma demo_inv: "rb_batch_size (memory demo_agent) = batch_size (hyperparameters demo_agent)"
  by (simp add: demo_agent_def demo_memory_def demo_hyperparameters_def)

lemma demo_iteration:
  "\<exists>ag'. step_iteration demo_collaborators demo_agent = Inr ag'
         \<and> length (filter is_sample (calls ag'))
             = length (filter is_sample (calls demo_agent)) + 2"
proof -
  have t: "time_for_critic_and_actor_to_learn
       (conduct_action demo_collaborators [6]
          (demo_agent\<lparr>exploration_strategy := (), action := [6]\<rparr>)) = Inr True"
    by (simp add: time_for_critic_and_actor_to_learn_def enough_experiences_to_learn_from_def
          conduct_action_fields demo_agent_def demo_hyperparameters_def demo_memory_def)
  have k: "(2::nat) = (if True then nat (learning_updates_per_learning_session
                                           (hyperparameters demo_agent)) else 0)"
    by (simp add: demo_agent_def demo_hyperparameters_def)
  from step_iteration_trace [OF demo_inv demo_pick t k]
  obtain ag' ys where r: "step_iteration demo_collaborators demo_agent = Inr ag'"
    and n: "length ys = 2"
    and c: "calls ag' = calls demo_agent @ [Conduct_Action [6]]
               @ concat (map2 (\<lambda>b y. learning_block_events b y
                                       (done_flag (conduct_action demo_collaborators [6]
                                          (demo_agent\<lparr>exploration_strategy := (), action := [6]\<rparr>)))
                                       (learning_rate (Actor (hyperparameters demo_agent))))
                           (draws demo_collaborators (rng (memory demo_agent))
                              (items (memory demo_agent))
                              (batch_size (hyperparameters demo_agent)) 2)
                           ys)
               @ [Save_Experience]"
    by blast
  have "length (filter is_sample (calls ag')) = length (filter is_sample (calls demo_agent)) + 2"
    using n c by (rule count_in_iteration(1))
  with r show ?thesis by blast
qed

subsection \<open>Order of the calls in a pass\<close>

text \<open>
  C2. One pass of a learning session, when its sample succeeds: the critic's learning step
  comes first and the actor's follows in the same pass. The critic's target \<open>y\<close> is computed
  from the actor-target and critic-target parameters of the agent at the start of the
  pass; the optimisation step on critic-local precedes the soft update of critic-target,
  which moves critic-target towards the updated critic-local. The actor's gradient is
  taken of the loss through the critic-local parameters that the critic's step has
  produced, the actor-local parameters are the result of the optimisation step on that
  gradient, and the soft update of actor-target, towards the updated actor-local, is
  the last call of the pass.
\<close>

theorem critic_before_actor:
  assumes s: "sample_experiences B ag = Inr (b, ag1)"
  shows "(let y = tensor_add (b_rewards b)
                    (tensor_mul
                       (scalar_mul (discount_rate (hyperparameters ag))
                          (critic_network B (critic_target ag)
                             (cat_axis1 (b_next_states b)
                                (actor_network B (actor_target ag) (b_next_states b)))))
                       (scalar_sub 1 (b_dones b)))
          in \<exists>ag'. learn_once B ag = Inr ag'
               \<and> calls ag' = calls ag
                   @ [Sample_Experiences b,
                      Critic_Grad (b_states b) (b_actions b) y,
                      Optimisation_Step Critic_Net,
                      Soft_Update Critic_Net]
                   @ (if done_flag ag
                      then [Update_Learning_Rate (learning_rate (Actor (hyperparameters ag)))]
                      else [])
                   @ [Actor_Grad (b_states b),
                      Optimisation_Step Actor_Net,
                      Soft_Update Actor_Net]
               \<and> critic_local ag' =
                   snd (take_optimisation_step B (critic_optimizer ag)
                          (snd (value_and_grad B
                                  (\<lambda>w. mse_loss (critic_network B w
                                                    (cat_axis1 (b_states b) (b_actions b))) y)
                                  (critic_local ag)))
                          (gradient_clipping_norm (Critic (hyperparameters ag)))
                          (critic_local ag))
               \<and> critic_optimizer ag' =
                   fst (take_optimisation_step B (critic_optimizer ag)
                          (snd (value_and_grad B
                                  (\<lambda>w. mse_loss (critic_network B w
                                                    (cat_axis1 (b_states b) (b_actions b))) y)
                                  (critic_local ag)))
                          (gradient_clipping_norm (Critic (hyperparameters ag)))
                          (critic_local ag))
               \<and> critic_target ag' =
                   soft_update_of_target_network (critic_local ag') (critic_target ag)
                     (tau (Critic (hyperparameters ag)))
               \<and> actor_local ag' =
                   snd (take_optimisation_step B
                          (if done_flag ag
                           then update_learning_rate
                                  (learning_rate (Actor (hyperparameters ag)))
                                  (actor_optimizer ag)
                           else actor_optimizer ag)
                          (snd (value_and_grad B
                                  (\<lambda>w. - mean (critic_network B (critic_local ag')
                                                   (cat_axis1 (b_states b)
                                                      (actor_network B w (b_states b)))))
                                  (actor_local ag)))
                          (gradient_clipping_norm (Actor (hyperparameters ag)))
                          (actor_local ag))
               \<and> actor_optimizer ag' =
                   fst (take_optimisation_step B
                          (if done_flag ag
                           then update_learning_rate
                                  (learning_rate (Actor (hyperparameters ag)))
                                  (actor_optimizer ag)
                           else actor_optimizer ag)
                          (snd (value_and_grad B
                                  (\<lambda>w. - mean (critic_network B (critic_local ag')
                                                   (cat_axis1 (b_states b)
                                                      (actor_network B w (b_states b)))))
                                  (actor_local ag)))
                          (gradient_clipping_norm (Actor (hyperparameters ag)))
                          (actor_local ag))
               \<and> actor_target ag' =
                   soft_update_of_target_network (actor_local ag') (actor_target ag)
                     (tau (Actor (hyperparameters ag))))"
proof -
  define y where "y = compute_critic_targets B ag (b_next_states b) (b_rewards b) (b_dones b)"
  define c1 where "c1 = critic_learn B ag1 (b_states b) (b_actions b) (b_rewards b)
                          (b_next_states b) (b_dones b)"
  define ag' where "ag' = actor_learn B c1 (b_states b)"
  note f = sample_experiences_fields [OF s]
  have y1: "compute_critic_targets B ag1 (b_next_states b) (b_rewards b) (b_dones b) = y"
    unfolding y_def using f(5) f(3) f(8) by (rule compute_critic_targets_cong)
  have r: "learn_once B ag = Inr ag'"
    using learn_once_Inr [OF s] by (simp add: ag'_def c1_def)
  have c: "calls ag' = calls ag
                   @ [Sample_Experiences b,
                      Critic_Grad (b_states b) (b_actions b) y,
                      Optimisation_Step Critic_Net,
                      Soft_Update Critic_Net]
                   @ (if done_flag ag
                      then [Update_Learning_Rate (learning_rate (Actor (hyperparameters ag)))]
                      else [])
                   @ [Actor_Grad (b_states b),
                      Optimisation_Step Actor_Net,
                      Soft_Update Actor_Net]"
    using learn_once_calls [OF s r] by (simp add: learning_block_events_def y_def)
  have l: "critic_local ag' =
                   snd (take_optimisation_step B (critic_optimizer ag)
                          (snd (value_and_grad B
                                  (\<lambda>w. mse_loss (critic_network B w
                                                    (cat_axis1 (b_states b) (b_actions b))) y)
                                  (critic_local ag)))
                          (gradient_clipping_norm (Critic (hyperparameters ag)))
                          (critic_local ag))"
    by (simp add: ag'_def c1_def actor_learn_unchanged critic_learn_critic_local y1
          critic_grad_fn_unfold f)
  have co: "critic_optimizer ag' =
                   fst (take_optimisation_step B (critic_optimizer ag)
                          (snd (value_and_grad B
                                  (\<lambda>w. mse_loss (critic_network B w
                                                    (cat_axis1 (b_states b) (b_actions b))) y)
                                  (critic_local ag)))
                          (gradient_clipping_norm (Critic (hyperparameters ag)))
                          (critic_local ag))"
    by (simp add: ag'_def c1_def actor_learn_unchanged critic_learn_critic_optimizer y1
          critic_grad_fn_unfold f)
  have lc: "critic_local c1 = critic_local ag'"
    by (simp add: ag'_def actor_learn_unchanged)
  have u1: "actor_local c1 = actor_local ag" "actor_optimizer c1 = actor_optimizer ag"
    "hyperparameters c1 = hyperparameters ag" "done_flag c1 = done_flag ag"
    by (simp_all add: c1_def critic_learn_unchanged f)
  have al: "actor_local ag' =
                   snd (take_optimisation_step B
                          (if done_flag ag
                           then update_learning_rate
                                  (learning_rate (Actor (hyperparameters ag)))
                                  (actor_optimizer ag)
                           else actor_optimizer ag)
                          (snd (value_and_grad B
                                  (\<lambda>w. - mean (critic_network B (critic_local ag')
                                                   (cat_axis1 (b_states b)
                                                      (actor_network B w (b_states b)))))
                                  (actor_local ag)))
                          (gradient_clipping_norm (Actor (hyperparameters ag)))
                          (actor_local ag))"
    unfolding ag'_def actor_learn_actor_local actor_grad_fn_unfold u1 lc
    unfolding ag'_def [symmetric] ..
  have ao: "actor_optimizer ag' =
                   fst (take_optimisation_step B
                          (if done_flag ag
                           then update_learning_rate
                                  (learning_rate (Actor (hyperparameters ag)))
                                  (actor_optimizer ag)
                           else actor_optimizer ag)
                          (snd (value_and_grad B
                                  (\<lambda>w. - mean (critic_network B (critic_local ag')
                                                   (cat_axis1 (b_states b)
                                                      (actor_network B w (b_states b)))))
                                  (actor_local ag)))
                          (gradient_clipping_norm (Actor (hyperparameters ag)))
                          (actor_local ag))"
    unfolding ag'_def actor_learn_actor_optimizer actor_grad_fn_unfold u1 lc
    unfolding ag'_def [symmetric] ..
  have tc: "critic_target ag' =
                   soft_update_of_target_network (critic_local ag') (critic_target ag)
                     (tau (Critic (hyperparameters ag)))"
    using critic_learn_critic_target [of B ag1 "b_states b" "b_actions b" "b_rewards b"
        "b_next_states b" "b_dones b"]
    by (simp add: ag'_def c1_def actor_learn_unchanged f)
  have ta: "actor_target ag' =
                   soft_update_of_target_network (actor_local ag') (actor_target ag)
                     (tau (Actor (hyperparameters ag)))"
    using actor_learn_actor_target [of B c1 "b_states b"]
    by (simp add: ag'_def c1_def critic_learn_unchanged f)
  have yu: "y = tensor_add (b_rewards b)
                    (tensor_mul
                       (scalar_mul (discount_rate (hyperparameters ag))
                          (critic_network B (critic_target ag)
                             (cat_axis1 (b_next_states b)
                                (actor_network B (actor_target ag) (b_next_states b)))))
                       (scalar_sub 1 (b_dones b)))"
    unfolding y_def by (rule compute_critic_targets_unfold)
  from r c l co tc al ao ta show ?thesis
    unfolding Let_def yu [symmetric] by blast
qed

theorem critic_before_actor_witness:
  "sample_experiences demo_collaborators demo_agent = Inr (demo_batch, demo_sampled)
   \<and> (\<exists>ag'. learn_once demo_collaborators demo_agent = Inr ag'
         \<and> calls ag' = [Sample_Experiences demo_batch,
                         Critic_Grad [[1], [2]] [[0], [1]] [[92 / 5], [5]],
                         Optimisation_Step Critic_Net, Soft_Update Critic_Net,
                         Actor_Grad [[1], [2]],
                         Optimisation_Step Actor_Net, Soft_Update Actor_Net]
         \<and> critic_target ag' = soft_update_of_target_network (critic_local ag') [2] (1 / 4)
         \<and> actor_target ag' = soft_update_of_target_network (actor_local ag') [4] (1 / 2)
         \<and> critic_local ag' = [49 / 50]
         \<and> actor_local ag' = [299 / 100])"
proof -
  have y: "tensor_add (b_rewards demo_batch)
             (tensor_mul
                (scalar_mul (discount_rate (hyperparameters demo_agent))
                   (critic_network demo_collaborators (critic_target demo_agent)
                      (cat_axis1 (b_next_states demo_batch)
                         (actor_network demo_collaborators (actor_target demo_agent)
                            (b_next_states demo_batch)))))
                (scalar_sub 1 (b_dones demo_batch)))
           = [[92 / 5], [5]]"
    by (simp add: demo_batch_def demo_agent_def demo_hyperparameters_def demo_collaborators_def
          tensor_add_def tensor_mul_def scalar_mul_def scalar_sub_def cat_axis1_def)
  have v: "calls demo_agent = []" "done_flag demo_agent = False"
    "critic_target demo_agent = [2]" "actor_target demo_agent = [4]"
    "tau (Critic (hyperparameters demo_agent)) = 1 / 4"
    "tau (Actor (hyperparameters demo_agent)) = 1 / 2"
    "b_states demo_batch = [[1], [2]]" "b_actions demo_batch = [[0], [1]]"
    by (simp_all add: demo_agent_def demo_hyperparameters_def demo_batch_def)
  have o: "snd (take_optimisation_step demo_collaborators (critic_optimizer demo_agent)
                  (snd (value_and_grad demo_collaborators f (critic_local demo_agent)))
                  c (critic_local demo_agent)) = [49 / 50]"
    "snd (take_optimisation_step demo_collaborators (actor_optimizer demo_agent)
                  (snd (value_and_grad demo_collaborators h (actor_local demo_agent)))
                  c (actor_local demo_agent)) = [299 / 100]" for f h c
    by (simp_all add: demo_collaborators_def demo_agent_def)
  note th = critic_before_actor [OF demo_sample, unfolded Let_def y]
  from th [unfolded v if_False o]
  obtain ag' where "learn_once demo_collaborators demo_agent = Inr ag'"
    and "calls ag' = [Sample_Experiences demo_batch,
                         Critic_Grad [[1], [2]] [[0], [1]] [[92 / 5], [5]],
                         Optimisation_Step Critic_Net, Soft_Update Critic_Net,
                         Actor_Grad [[1], [2]],
                         Optimisation_Step Actor_Net, Soft_Update Actor_Net]"
    and "critic_target ag' = soft_update_of_target_network (critic_local ag') [2] (1 / 4)"
    and "actor_target ag' = soft_update_of_target_network (actor_local ag') [4] (1 / 2)"
    and "critic_local ag' = [49 / 50]"
    and "actor_local ag' = [299 / 100]"
    by auto
  with demo_sample show ?thesis by blast
qed

text \<open>
  C10. One pass of a learning session, when its sample succeeds: one batch is sampled, and
  the actor's learning step gets the states of that batch, the ones the critic's learning
  step got.
\<close>

theorem one_batch_per_repetition:
  assumes s: "sample_experiences B ag = Inr (b, ag1)"
  shows "learn_once B ag =
           Inr (actor_learn B
                  (critic_learn B ag1 (b_states b) (b_actions b) (b_rewards b)
                     (b_next_states b) (b_dones b))
                  (b_states b))
       \<and> b = decompose (fst (random_sample B (rng (memory ag)) (items (memory ag))
                                (rb_batch_size (memory ag))))
       \<and> (\<exists>ag'. learn_once B ag = Inr ag'
            \<and> filter is_sample (drop (length (calls ag)) (calls ag')) = [Sample_Experiences b]
            \<and> filter is_critic_grad (drop (length (calls ag)) (calls ag'))
                = [Critic_Grad (b_states b) (b_actions b)
                     (compute_critic_targets B ag (b_next_states b) (b_rewards b) (b_dones b))]
            \<and> filter is_actor_grad (drop (length (calls ag)) (calls ag'))
                = [Actor_Grad (b_states b)])"
proof -
  have a: "learn_once B ag =
           Inr (actor_learn B
                  (critic_learn B ag1 (b_states b) (b_actions b) (b_rewards b)
                     (b_next_states b) (b_dones b))
                  (b_states b))"
    using s by (rule learn_once_Inr)
  then obtain ag' where r: "learn_once B ag = Inr ag'" by simp
  have b: "b = decompose (fst (random_sample B (rng (memory ag)) (items (memory ag))
                                (rb_batch_size (memory ag))))"
    using s by (rule sample_experiences_Inr(1))
  note c = learn_once_calls [OF s r]
  have c1: "filter is_sample (drop (length (calls ag)) (calls ag')) = [Sample_Experiences b]"
    by (simp add: c learning_block_events_def)
  have c2: "filter is_critic_grad (drop (length (calls ag)) (calls ag'))
                = [Critic_Grad (b_states b) (b_actions b)
                     (compute_critic_targets B ag (b_next_states b) (b_rewards b) (b_dones b))]"
    by (simp add: c learning_block_events_def)
  have c3: "filter is_actor_grad (drop (length (calls ag)) (calls ag')) = [Actor_Grad (b_states b)]"
    by (simp add: c learning_block_events_def)
  from a b r c1 c2 c3 show ?thesis by blast
qed

theorem one_batch_per_repetition_witness:
  "sample_experiences demo_collaborators demo_agent = Inr (demo_batch, demo_sampled)
   \<and> (\<exists>ag'. learn_once demo_collaborators demo_agent = Inr ag'
         \<and> filter is_sample (drop (length (calls demo_agent)) (calls ag'))
             = [Sample_Experiences demo_batch]
         \<and> filter is_actor_grad (drop (length (calls demo_agent)) (calls ag'))
             = [Actor_Grad [[1], [2]]])"
proof -
  have v: "b_states demo_batch = [[1], [2]]" by (simp add: demo_batch_def)
  from one_batch_per_repetition [OF demo_sample]
  obtain ag' where "learn_once demo_collaborators demo_agent = Inr ag'"
    and "filter is_sample (drop (length (calls demo_agent)) (calls ag'))
             = [Sample_Experiences demo_batch]"
    and "filter is_actor_grad (drop (length (calls demo_agent)) (calls ag'))
             = [Actor_Grad [[1], [2]]]"
    unfolding v by blast
  with demo_sample show ?thesis by blast
qed

subsection \<open>The learning trigger\<close>



text \<open>
  C6. With the buffer built for the batch size of the hyperparameters, as \<^verbatim>\<open>__init__\<close>
  builds it, no iteration of the control loop and no run of \<^verbatim>\<open>step\<close> ends in
  \<open>InsufficientDataError\<close>, and an iteration in which a batch was sampled started with at
  least \<open>batch_size\<close> transitions in the buffer. Every iteration keeps the buffer's batch
  size equal to that of the hyperparameters.
\<close>

theorem sampling_guarded:
  assumes inv: "rb_batch_size (memory ag) = batch_size (hyperparameters ag)"
  shows "step_iteration B ag \<noteq> Inl InsufficientDataError
       \<and> step B ag \<noteq> Some (Inl InsufficientDataError)
       \<and> (\<forall>ag'. step_iteration B ag = Inr ag'
                \<and> filter is_sample (calls ag') \<noteq> filter is_sample (calls ag)
              \<longrightarrow> rb_batch_size (memory ag) \<le> int (length (items (memory ag))))
       \<and> (\<forall>ag'. step_iteration B ag = Inr ag'
              \<longrightarrow> rb_batch_size (memory ag') = batch_size (hyperparameters ag'))
       \<and> rb_batch_size (memory (DDPG_init B hp seed state_size action_size base))
           = batch_size (hyperparameters (DDPG_init B hp seed state_size action_size base))"
proof -
  have a: "step_iteration B ag \<noteq> Inl InsufficientDataError"
    using inv by (rule step_iteration_safe)
  have b: "step B ag \<noteq> Some (Inl InsufficientDataError)"
  proof
    assume s: "step B ag = Some (Inl InsufficientDataError)"
    then have "step_loop B ag = Some (Inl InsufficientDataError)"
      by (simp add: step_def split: option.splits sum.splits)
    from step_loop_safe [OF this inv] show False by simp
  qed
  have c: "rb_batch_size (memory ag) \<le> int (length (items (memory ag)))"
    if r: "step_iteration B ag = Inr ag'"
      and d: "filter is_sample (calls ag') \<noteq> filter is_sample (calls ag)" for ag'
  proof (rule ccontr)
    assume n: "\<not> rb_batch_size (memory ag) \<le> int (length (items (memory ag)))"
    obtain a ag0 where pick: "pick_action B ag = Inr (a, ag0)"
      using r step_iteration_pick_fail [of B ag] by (cases "pick_action B ag") auto
    note f = after_acting_fields [OF pick]
    have tf: "time_for_critic_and_actor_to_learn (conduct_action B a (ag0\<lparr>action := a\<rparr>))
                = Inr False"
      using n inv f
      by (simp add: time_for_critic_and_actor_to_learn_def enough_experiences_to_learn_from_def)
    from step_iteration_trace [OF inv pick tf, of 0] r
    have "calls ag' = calls ag @ [Conduct_Action a] @ [Save_Experience]" by simp
    then have "filter is_sample (calls ag') = filter is_sample (calls ag)" by simp
    with d show False by simp
  qed
  have p: "rb_batch_size (memory ag') = batch_size (hyperparameters ag')"
    if "step_iteration B ag = Inr ag'" for ag'
    using step_iteration_preserves [OF that] inv by simp
  have n: "rb_batch_size (memory (DDPG_init B hp seed state_size action_size base))
           = batch_size (hyperparameters (DDPG_init B hp seed state_size action_size base))"
    by (simp add: DDPG_init_def Let_def split_def Replay_Buffer_init_def)
  from a b c p n show ?thesis by blast
qed

theorem sampling_guarded_witness:
  "rb_batch_size (memory demo_agent) = batch_size (hyperparameters demo_agent)
   \<and> (\<exists>ag'. step_iteration demo_collaborators demo_agent = Inr ag'
         \<and> filter is_sample (calls ag') \<noteq> filter is_sample (calls demo_agent))
   \<and> rb_batch_size (memory demo_agent) \<le> int (length (items (memory demo_agent)))
   \<and> step_iteration demo_collaborators demo_agent \<noteq> Inl InsufficientDataError
   \<and> step demo_collaborators demo_agent \<noteq> Some (Inl InsufficientDataError)"
proof -
  from demo_iteration
  obtain ag' where r: "step_iteration demo_collaborators demo_agent = Inr ag'"
    and "length (filter is_sample (calls ag'))
           = length (filter is_sample (calls demo_agent)) + 2"
    by blast
  then have d: "filter is_sample (calls ag') \<noteq> filter is_sample (calls demo_agent)" by auto
  note th = sampling_guarded [OF demo_inv, of demo_collaborators]
  from th r d have e: "rb_batch_size (memory demo_agent) \<le> int (length (items (memory demo_agent)))"
    by blast
  from th demo_inv r d e show ?thesis by blast
qed

subsection \<open>Non-finite losses\<close>

lemma fl_big: "fl big = Fin big" "fl (- big) = Fin (- big)"
  unfolding big_def by (simp_all only: fl_pow2_small fl_neg_pow2_small)

lemma fl_big_sq: "fl (big * big) = PInf"
proof -
  have "big * big = 2 ^ 200" by (simp add: big_def)
  then show ?thesis by (simp only: fl_pow2_big)
qed

lemma f32_targets:
  "compute_critic_targets f32_collaborators f32_agent [[Fin 1]] [[Fin big]] [[Fin 1]]
     = [[Fin big]]"
  by (simp add: compute_critic_targets_def compute_critic_values_for_next_states_def
        compute_critic_values_for_current_states_def tensor_add_def tensor_mul_def
        scalar_mul_def scalar_sub_def cat_axis1_def f32_collaborators_def f32_agent_def
        f32_hyperparameters_def one_float32_def minus_float32_def times_float32_def
        plus_float32_def fl_0 fl_big)

lemma f32_loss_overflows:
  "fst (critic_grad_fn f32_collaborators f32_agent [[Fin 1]] [[Fin 0]]
          (compute_critic_targets f32_collaborators f32_agent [[Fin 1]] [[Fin big]] [[Fin 1]]))
     = PInf"
  unfolding f32_targets critic_grad_fn_unfold
  by (simp add: f32_collaborators_def mse_loss_def mean_def tensor_sub_def cat_axis1_def
        zero_float32_def one_float32_def minus_float32_def times_float32_def
        plus_float32_def divide_float32_def fl_0 fl_1 fl_big fl_big_sq)

lemma f32_sample:
  "sample_experiences f32_collaborators f32_agent = Inr (f32_batch, f32_sampled)"
  by (simp add: sample_experiences_def sample_def f32_collaborators_def f32_agent_def
        f32_batch_def f32_sampled_def decompose_def log_call_def one_float32_def)

lemma shape_decompose:
  "shape (b_rewards (decompose ts)) = replicate (length ts) 1"
  "shape (b_dones (decompose ts)) = replicate (length ts) 1"
  "length (b_states (decompose ts)) = length ts"
  "length (b_actions (decompose ts)) = length ts"
  "length (b_next_states (decompose ts)) = length ts"
  by (simp_all add: decompose_def shape_def comp_def map_replicate_const)

lemma learn_once_effect:
  assumes s: "sample_experiences B ag = Inr (b, ag1)"
  shows "\<exists>ag'. learn_once B ag = Inr ag'
           \<and> critic_local ag' =
               snd (take_optimisation_step B (critic_optimizer ag)
                      (snd (critic_grad_fn B ag (b_states b) (b_actions b)
                              (compute_critic_targets B ag (b_next_states b) (b_rewards b)
                                 (b_dones b))))
                      (gradient_clipping_norm (Critic (hyperparameters ag))) (critic_local ag))
           \<and> critic_target ag' =
               soft_update_of_target_network (critic_local ag') (critic_target ag)
                 (tau (Critic (hyperparameters ag)))
           \<and> actor_local ag' =
               snd (take_optimisation_step B
                      (if done_flag ag
                       then update_learning_rate (learning_rate (Actor (hyperparameters ag)))
                              (actor_optimizer ag)
                       else actor_optimizer ag)
                      (snd (value_and_grad B
                              (\<lambda>w. - mean (critic_network B (critic_local ag')
                                               (cat_axis1 (b_states b)
                                                  (actor_network B w (b_states b)))))
                              (actor_local ag)))
                      (gradient_clipping_norm (Actor (hyperparameters ag))) (actor_local ag))
           \<and> actor_target ag' =
               soft_update_of_target_network (actor_local ag') (actor_target ag)
                 (tau (Actor (hyperparameters ag)))
           \<and> calls ag' = calls ag
               @ learning_block_events b
                   (compute_critic_targets B ag (b_next_states b) (b_rewards b) (b_dones b))
                   (done_flag ag) (learning_rate (Actor (hyperparameters ag)))"
proof -
  define y where "y = compute_critic_targets B ag (b_next_states b) (b_rewards b) (b_dones b)"
  define c1 where "c1 = critic_learn B ag1 (b_states b) (b_actions b) (b_rewards b)
                          (b_next_states b) (b_dones b)"
  define ag' where "ag' = actor_learn B c1 (b_states b)"
  note f = sample_experiences_fields [OF s]
  have y1: "compute_critic_targets B ag1 (b_next_states b) (b_rewards b) (b_dones b) = y"
    unfolding y_def using f(5) f(3) f(8) by (rule compute_critic_targets_cong)
  have r: "learn_once B ag = Inr ag'"
    using learn_once_Inr [OF s] by (simp add: ag'_def c1_def)
  have l: "critic_local ag' =
               snd (take_optimisation_step B (critic_optimizer ag)
                      (snd (critic_grad_fn B ag (b_states b) (b_actions b) y))
                      (gradient_clipping_norm (Critic (hyperparameters ag))) (critic_local ag))"
    by (simp add: ag'_def c1_def actor_learn_unchanged critic_learn_critic_local y1
          critic_grad_fn_unfold f)
  have tc: "critic_target ag' =
               soft_update_of_target_network (critic_local ag') (critic_target ag)
                 (tau (Critic (hyperparameters ag)))"
    using critic_learn_critic_target [of B ag1 "b_states b" "b_actions b" "b_rewards b"
        "b_next_states b" "b_dones b"]
    by (simp add: ag'_def c1_def actor_learn_unchanged f)
  have lc: "critic_local c1 = critic_local ag'"
    by (simp add: ag'_def actor_learn_unchanged)
  have u1: "actor_local c1 = actor_local ag" "actor_optimizer c1 = actor_optimizer ag"
    "hyperparameters c1 = hyperparameters ag" "done_flag c1 = done_flag ag"
    by (simp_all add: c1_def critic_learn_unchanged f)
  have al: "actor_local ag' =
               snd (take_optimisation_step B
                      (if done_flag ag
                       then update_learning_rate (learning_rate (Actor (hyperparameters ag)))
                              (actor_optimizer ag)
                       else actor_optimizer ag)
                      (snd (value_and_grad B
                              (\<lambda>w. - mean (critic_network B (critic_local ag')
                                               (cat_axis1 (b_states b)
                                                  (actor_network B w (b_states b)))))
                              (actor_local ag)))
                      (gradient_clipping_norm (Actor (hyperparameters ag))) (actor_local ag))"
    unfolding ag'_def actor_learn_actor_local actor_grad_fn_unfold u1 lc
    unfolding ag'_def [symmetric] ..
  have ta: "actor_target ag' =
               soft_update_of_target_network (actor_local ag') (actor_target ag)
                 (tau (Actor (hyperparameters ag)))"
    using actor_learn_actor_target [of B c1 "b_states b"]
    by (simp add: ag'_def c1_def critic_learn_unchanged f)
  have c: "calls ag' = calls ag
               @ learning_block_events b y (done_flag ag)
                   (learning_rate (Actor (hyperparameters ag)))"
    unfolding y_def using s r by (rule learn_once_calls)
  from r l tc al ta c show ?thesis unfolding y_def by blast
qed

text \<open>
  C7 does not hold as stated. The batch holds one transition with the reward \<open>2\<^sup>1\<^sup>0\<^sup>0\<close>; the
  critic's value is 0, so the squared error overflows and the loss of the critic's
  learning step is \<open>+\<infinity>\<close>. The optimisation step here changes nothing; the call of
  \<^verbatim>\<open>take_optimisation_step\<close> is made all the same, and the soft update moves the
  critic-target parameters.
\<close>

theorem nonfinite_loss_counterexample:
  "fst (critic_grad_fn f32_collaborators f32_agent [[Fin 1]] [[Fin 0]]
          (compute_critic_targets f32_collaborators f32_agent [[Fin 1]] [[Fin big]] [[Fin 1]]))
     = PInf
   \<and> Optimisation_Step Critic_Net
       \<in> set (calls (critic_learn f32_collaborators f32_agent [[Fin 1]] [[Fin 0]]
                       [[Fin big]] [[Fin 1]] [[Fin 1]]))
   \<and> critic_target f32_agent = [2]
   \<and> critic_target (critic_learn f32_collaborators f32_agent [[Fin 1]] [[Fin 0]]
                       [[Fin big]] [[Fin 1]] [[Fin 1]]) = [7 / 4]
   \<and> critic_target (critic_learn f32_collaborators f32_agent [[Fin 1]] [[Fin 0]]
                       [[Fin big]] [[Fin 1]] [[Fin 1]]) \<noteq> critic_target f32_agent"
proof -
  have b: "Optimisation_Step Critic_Net
       \<in> set (calls (critic_learn f32_collaborators f32_agent [[Fin 1]] [[Fin 0]]
                       [[Fin big]] [[Fin 1]] [[Fin 1]]))"
    by (simp add: critic_learn_calls)
  have c: "critic_target f32_agent = [2]" by (simp add: f32_agent_def)
  have l: "critic_local (critic_learn f32_collaborators f32_agent [[Fin 1]] [[Fin 0]]
                       [[Fin big]] [[Fin 1]] [[Fin 1]]) = [1]"
    by (simp add: critic_learn_critic_local f32_collaborators_def f32_agent_def)
  have d: "critic_target (critic_learn f32_collaborators f32_agent [[Fin 1]] [[Fin 0]]
                       [[Fin big]] [[Fin 1]] [[Fin 1]]) = [7 / 4]"
    unfolding critic_learn_critic_target l
    by (simp add: soft_update_of_target_network_def f32_agent_def f32_hyperparameters_def)
  from f32_loss_overflows b c d show ?thesis by simp
qed

text \<open>
  C7, as the code has it. A pass of a learning session on a sampled batch, with networks
  that return one row for every row they are given, the critic one value in each: the
  tensors that are concatenated and combined agree in their shapes. Neither learning step
  looks at the loss or at the norm of the gradients: whatever the loss is, the gradients
  go to \<^verbatim>\<open>take_optimisation_step\<close>, the local parameters become what it returns, and
  the soft update of the target network follows. The pass returns, and so does a
  session of any number of passes: the control loop continues.
\<close>

theorem learning_steps_unconditional:
  assumes s: "sample_experiences B ag = Inr (b, ag1)"
    and rows: "\<forall>w x. length (actor_network B w x) = length x"
    and cols: "\<forall>w x. shape (critic_network B w x) = replicate (length x) 1"
  shows "(let y = compute_critic_targets B ag (b_next_states b) (b_rewards b) (b_dones b)
          in length (b_actions b) = length (b_states b)
             \<and> length (actor_network B (actor_target ag) (b_next_states b))
                 = length (b_next_states b)
             \<and> length (actor_network B (actor_local ag) (b_states b)) = length (b_states b)
             \<and> shape (critic_network B (critic_target ag)
                        (cat_axis1 (b_next_states b)
                           (actor_network B (actor_target ag) (b_next_states b))))
                 = shape (b_rewards b)
             \<and> shape (b_dones b) = shape (b_rewards b)
             \<and> shape (critic_network B (critic_local ag)
                        (cat_axis1 (b_states b) (b_actions b))) = shape y
             \<and> (\<exists>ag'. learn_once B ag = Inr ag'
                  \<and> critic_local ag' =
                      snd (take_optimisation_step B (critic_optimizer ag)
                             (snd (critic_grad_fn B ag (b_states b) (b_actions b) y))
                             (gradient_clipping_norm (Critic (hyperparameters ag)))
                             (critic_local ag))
                  \<and> critic_target ag' =
                      soft_update_of_target_network (critic_local ag') (critic_target ag)
                        (tau (Critic (hyperparameters ag)))
                  \<and> actor_local ag' =
                      snd (take_optimisation_step B
                             (if done_flag ag
                              then update_learning_rate
                                     (learning_rate (Actor (hyperparameters ag)))
                                     (actor_optimizer ag)
                              else actor_optimizer ag)
                             (snd (value_and_grad B
                                     (\<lambda>w. - mean (critic_network B (critic_local ag')
                                                      (cat_axis1 (b_states b)
                                                         (actor_network B w (b_states b)))))
                                     (actor_local ag)))
                             (gradient_clipping_norm (Actor (hyperparameters ag)))
                             (actor_local ag))
                  \<and> actor_target ag' =
                      soft_update_of_target_network (actor_local ag') (actor_target ag)
                        (tau (Actor (hyperparameters ag)))
                  \<and> calls ag' = calls ag
                      @ learning_block_events b y (done_flag ag)
                          (learning_rate (Actor (hyperparameters ag))))
             \<and> (\<forall>k. \<exists>st. learning_session B k ag = Inr st))"
proof -
  define y where "y = compute_critic_targets B ag (b_next_states b) (b_rewards b) (b_dones b)"
  define ts where "ts = fst (random_sample B (rng (memory ag)) (items (memory ag))
                               (rb_batch_size (memory ag)))"
  have b: "b = decompose ts" unfolding ts_def using s by (rule sample_experiences_Inr(1))
  note sd = shape_decompose [of ts, folded b]
  have r1: "length (b_actions b) = length (b_states b)" using sd by simp
  have r2: "length (actor_network B (actor_target ag) (b_next_states b))
              = length (b_next_states b)"
    using rows by simp
  have r3: "length (actor_network B (actor_local ag) (b_states b)) = length (b_states b)"
    using rows by simp
  have n: "length (cat_axis1 (b_next_states b)
                     (actor_network B (actor_target ag) (b_next_states b))) = length ts"
    using r2 sd by (simp add: cat_axis1_def)
  have q: "shape (critic_network B (critic_target ag)
                        (cat_axis1 (b_next_states b)
                           (actor_network B (actor_target ag) (b_next_states b))))
                 = shape (b_rewards b)"
    using cols n sd by simp
  have d: "shape (b_dones b) = shape (b_rewards b)" using sd by simp
  have sy: "shape y = shape (b_rewards b)"
    unfolding y_def compute_critic_targets_def compute_critic_values_for_next_states_def Let_def
    using q d by (rule shape_current_states)
  have m: "length (cat_axis1 (b_states b) (b_actions b)) = length ts"
    using sd by (simp add: cat_axis1_def)
  have e: "shape (critic_network B (critic_local ag)
                        (cat_axis1 (b_states b) (b_actions b))) = shape y"
    using cols m sd sy by simp
  have k: "\<exists>st. learning_session B k ag = Inr st" for k
    using learning_session_trace [OF sample_experiences_Inr(3) [OF s], of B k] by blast
  from r1 r2 r3 q d e learn_once_effect [OF s] k show ?thesis
    unfolding Let_def y_def [symmetric] by blast
qed

theorem learning_steps_unconditional_witness:
  "sample_experiences f32_collaborators f32_agent = Inr (f32_batch, f32_sampled)
   \<and> (\<forall>w x. length (actor_network f32_collaborators w x) = length x)
   \<and> (\<forall>w x. shape (critic_network f32_collaborators w x) = replicate (length x) 1)
   \<and> fst (critic_grad_fn f32_collaborators f32_agent (b_states f32_batch) (b_actions f32_batch)
            (compute_critic_targets f32_collaborators f32_agent (b_next_states f32_batch)
               (b_rewards f32_batch) (b_dones f32_batch))) = PInf
   \<and> (\<exists>ag'. learn_once f32_collaborators f32_agent = Inr ag'
         \<and> critic_local ag' = [1]
         \<and> critic_target ag' = [7 / 4]
         \<and> actor_target ag' = [7 / 2]
         \<and> Optimisation_Step Critic_Net \<in> set (calls ag')
         \<and> Optimisation_Step Actor_Net \<in> set (calls ag'))
   \<and> (\<exists>st. learning_session f32_collaborators 1 f32_agent = Inr st)"
proof -
  have rows: "\<forall>w x. length (actor_network f32_collaborators w x) = length x"
    by (simp add: f32_collaborators_def)
  have cols: "\<forall>w x. shape (critic_network f32_collaborators w x) = replicate (length x) 1"
    by (simp add: f32_collaborators_def shape_def comp_def map_replicate_const)
  have v: "b_states f32_batch = [[Fin 1]]" "b_actions f32_batch = [[Fin 0]]"
    "b_rewards f32_batch = [[Fin big]]" "b_next_states f32_batch = [[Fin 1]]"
    "b_dones f32_batch = [[Fin 1]]"
    by (simp_all add: f32_batch_def)
  have o: "snd (take_optimisation_step f32_collaborators opt g c w) = w" for opt g c w
    by (simp add: f32_collaborators_def)
  have p: "critic_local f32_agent = [1]" "critic_target f32_agent = [2]"
    "actor_local f32_agent = [3]" "actor_target f32_agent = [4]"
    "tau (Critic (hyperparameters f32_agent)) = 1 / 4"
    "tau (Actor (hyperparameters f32_agent)) = 1 / 2" "calls f32_agent = []"
    by (simp_all add: f32_agent_def f32_hyperparameters_def)
  note th = learning_steps_unconditional [OF f32_sample rows cols, unfolded Let_def]
  from th obtain ag' where r: "learn_once f32_collaborators f32_agent = Inr ag'"
    and l: "critic_local ag' = [1]"
    and tc: "critic_target ag' =
               soft_update_of_target_network (critic_local ag') [2] (1 / 4)"
    and al: "actor_local ag' = [3]"
    and ta: "actor_target ag' =
               soft_update_of_target_network (actor_local ag') [4] (1 / 2)"
    and c: "calls ag' = [] @ learning_block_events f32_batch
              (compute_critic_targets f32_collaborators f32_agent (b_next_states f32_batch)
                 (b_rewards f32_batch) (b_dones f32_batch))
              (done_flag f32_agent) (learning_rate (Actor (hyperparameters f32_agent)))"
    unfolding o p by blast
  have tc': "critic_target ag' = [7 / 4]"
    unfolding tc l by (simp add: soft_update_of_target_network_def)
  have ta': "actor_target ag' = [7 / 2]"
    unfolding ta al by (simp add: soft_update_of_target_network_def)
  have e: "Optimisation_Step Critic_Net \<in> set (calls ag')"
    "Optimisation_Step Actor_Net \<in> set (calls ag')"
    unfolding c by (simp_all add: learning_block_events_def)
  from th have k: "\<exists>st. learning_session f32_collaborators 1 f32_agent = Inr st" by blast
  have n: "fst (critic_grad_fn f32_collaborators f32_agent (b_states f32_batch)
            (b_actions f32_batch)
            (compute_critic_targets f32_collaborators f32_agent (b_next_states f32_batch)
               (b_rewards f32_batch) (b_dones f32_batch))) = PInf"
    unfolding v by (rule f32_loss_overflows)
  from f32_sample rows cols n r l tc' ta' e k show ?thesis by blast
qed

subsection \<open>Learning rate at the end of an episode\<close>

text \<open>
  C8. When the actor's learning step runs with the done flag set, the call of
  \<^verbatim>\<open>update_learning_rate\<close> comes before the gradient computation and the optimisation
  step, the optimiser that takes the step has the learning rate of the \<^verbatim>\<open>"Actor"\<close>
  hyperparameters, and no iteration of the control loop changes that hyperparameter.
\<close>

theorem actor_learning_rate_at_episode_end:
  assumes d: "done_flag ag"
  shows "calls (actor_learn B ag s) =
           calls ag @ [Update_Learning_Rate (learning_rate (Actor (hyperparameters ag))),
                       Actor_Grad s, Optimisation_Step Actor_Net, Soft_Update Actor_Net]
       \<and> actor_local (actor_learn B ag s) =
           snd (take_optimisation_step B
                  ((actor_optimizer ag)
                     \<lparr>opt_learning_rate := learning_rate (Actor (hyperparameters ag))\<rparr>)
                  (snd (actor_grad_fn B ag s))
                  (gradient_clipping_norm (Actor (hyperparameters ag))) (actor_local ag))
       \<and> actor_optimizer (actor_learn B ag s) =
           fst (take_optimisation_step B
                  ((actor_optimizer ag)
                     \<lparr>opt_learning_rate := learning_rate (Actor (hyperparameters ag))\<rparr>)
                  (snd (actor_grad_fn B ag s))
                  (gradient_clipping_norm (Actor (hyperparameters ag))) (actor_local ag))
       \<and> hyperparameters (actor_learn B ag s) = hyperparameters ag
       \<and> (\<forall>st st'. step_iteration B st = Inr st' \<longrightarrow>
            learning_rate (Actor (hyperparameters st'))
              = learning_rate (Actor (hyperparameters st)))"
proof -
  have a: "calls (actor_learn B ag s) =
           calls ag @ [Update_Learning_Rate (learning_rate (Actor (hyperparameters ag))),
                       Actor_Grad s, Optimisation_Step Actor_Net, Soft_Update Actor_Net]"
    using d by (simp add: actor_learn_calls)
  have b: "actor_local (actor_learn B ag s) =
           snd (take_optimisation_step B
                  ((actor_optimizer ag)
                     \<lparr>opt_learning_rate := learning_rate (Actor (hyperparameters ag))\<rparr>)
                  (snd (actor_grad_fn B ag s))
                  (gradient_clipping_norm (Actor (hyperparameters ag))) (actor_local ag))"
    using d by (simp add: actor_learn_actor_local update_learning_rate_def)
  have c: "actor_optimizer (actor_learn B ag s) =
           fst (take_optimisation_step B
                  ((actor_optimizer ag)
                     \<lparr>opt_learning_rate := learning_rate (Actor (hyperparameters ag))\<rparr>)
                  (snd (actor_grad_fn B ag s))
                  (gradient_clipping_norm (Actor (hyperparameters ag))) (actor_local ag))"
    using d by (simp add: actor_learn_actor_optimizer update_learning_rate_def)
  have e: "hyperparameters (actor_learn B ag s) = hyperparameters ag"
    by (rule actor_learn_unchanged)
  have f: "learning_rate (Actor (hyperparameters st'))
              = learning_rate (Actor (hyperparameters st))"
    if "step_iteration B st = Inr st'" for st st'
    using step_iteration_preserves [OF that] by simp
  from a b c e f show ?thesis by blast
qed

theorem actor_learning_rate_at_episode_end_witness:
  "done_flag (demo_agent\<lparr>done_flag := True\<rparr>)
   \<and> calls (actor_learn demo_collaborators (demo_agent\<lparr>done_flag := True\<rparr>) [[1], [2]])
       = [Update_Learning_Rate (1 / 100), Actor_Grad [[1], [2]],
          Optimisation_Step Actor_Net, Soft_Update Actor_Net]
   \<and> (\<exists>st'. step_iteration demo_collaborators demo_agent = Inr st'
         \<and> learning_rate (Actor (hyperparameters st')) = 1 / 100)"
proof -
  have d: "done_flag (demo_agent\<lparr>done_flag := True\<rparr>)" by simp
  note th = actor_learning_rate_at_episode_end
    [OF d, of demo_collaborators "[[1], [2]]"]
  have v: "calls (demo_agent\<lparr>done_flag := True\<rparr>) = []"
    "learning_rate (Actor (hyperparameters (demo_agent\<lparr>done_flag := True\<rparr>))) = 1 / 100"
    "learning_rate (Actor (hyperparameters demo_agent)) = 1 / 100"
    by (simp_all add: demo_agent_def demo_hyperparameters_def)
  from th have a: "calls (actor_learn demo_collaborators (demo_agent\<lparr>done_flag := True\<rparr>) [[1], [2]])
       = [Update_Learning_Rate (1 / 100), Actor_Grad [[1], [2]],
          Optimisation_Step Actor_Net, Soft_Update Actor_Net]"
    unfolding v by simp
  obtain st' where r: "step_iteration demo_collaborators demo_agent = Inr st'"
    using demo_iteration by blast
  from th r have "learning_rate (Actor (hyperparameters st'))
                    = learning_rate (Actor (hyperparameters demo_agent))"
    by blast
  with v have "learning_rate (Actor (hyperparameters st')) = 1 / 100" by simp
  with d a r show ?thesis by blast
qed

end
